theory Spec2Isabelle
  imports Complex_Main "HOL-Library.Char_ord" "HOL-Library.List_Lexorder"
    "HOL-Library.Product_Lexorder" "HOL-Library.Multiset"
begin

section \<open>Python values and strings\<close>

text \<open>
  A string is the list of the bytes of its UTF-8 encoding, so that a character outside
  ASCII is a sequence of two to four bytes.

  \<open>str.lower\<close>: the letters A to Z become a to z, and the Kelvin sign (U+212A, the bytes
  E2 84 AA) becomes k. No other character has a lower case inside ASCII; the characters
  outside ASCII are left as they are, so the result agrees with Python's wherever it is
  compared with an ASCII label.
\<close>

definition lower_char :: "char \<Rightarrow> char" where
  "lower_char c =
     (case map_of (zip ''ABCDEFGHIJKLMNOPQRSTUVWXYZ'' ''abcdefghijklmnopqrstuvwxyz'') c of
        Some d \<Rightarrow> d
      | None \<Rightarrow> c)"

fun lower :: "string \<Rightarrow> string" where
  "lower (a # b # c # s) =
     (if a = CHR 0xE2 \<and> b = CHR 0x84 \<and> c = CHR 0xAA then CHR ''k'' # lower s
      else lower_char a # lower (b # c # s))"
| "lower (a # s) = lower_char a # lower s"
| "lower [] = []"

declare lower.simps [simp del]

text \<open>
  \<open>str.strip()\<close> removes from both ends every character that \<open>str.isspace\<close> accepts:
  U+0009 to U+000D, U+001C to U+0020, U+0085, U+00A0, U+1680, U+2000 to U+200A, U+2028,
  U+2029, U+202F, U+205F and U+3000, here in their UTF-8 encoding.
\<close>

definition whitespace :: "string list" where
  "whitespace =
     [[CHR 0x09], [CHR 0x0A], [CHR 0x0B], [CHR 0x0C], [CHR 0x0D],
      [CHR 0x1C], [CHR 0x1D], [CHR 0x1E], [CHR 0x1F], [CHR 0x20],
      [CHR 0xC2, CHR 0x85], [CHR 0xC2, CHR 0xA0],
      [CHR 0xE1, CHR 0x9A, CHR 0x80],
      [CHR 0xE2, CHR 0x80, CHR 0x80], [CHR 0xE2, CHR 0x80, CHR 0x81],
      [CHR 0xE2, CHR 0x80, CHR 0x82], [CHR 0xE2, CHR 0x80, CHR 0x83],
      [CHR 0xE2, CHR 0x80, CHR 0x84], [CHR 0xE2, CHR 0x80, CHR 0x85],
      [CHR 0xE2, CHR 0x80, CHR 0x86], [CHR 0xE2, CHR 0x80, CHR 0x87],
      [CHR 0xE2, CHR 0x80, CHR 0x88], [CHR 0xE2, CHR 0x80, CHR 0x89],
      [CHR 0xE2, CHR 0x80, CHR 0x8A],
      [CHR 0xE2, CHR 0x80, CHR 0xA8], [CHR 0xE2, CHR 0x80, CHR 0xA9],
      [CHR 0xE2, CHR 0x80, CHR 0xAF], [CHR 0xE2, CHR 0x81, CHR 0x9F],
      [CHR 0xE3, CHR 0x80, CHR 0x80]]"

function strip_left :: "string list \<Rightarrow> string \<Rightarrow> string" where
  "strip_left ws s =
     (case find (\<lambda>w. w \<noteq> [] \<and> take (length w) s = w) ws of
        None \<Rightarrow> s
      | Some w \<Rightarrow> strip_left ws (drop (length w) s))"
  by pat_completeness auto
termination
proof (relation "measure (\<lambda>(ws, s). length s)")
  show "wf (measure (\<lambda>(ws, s). length s))" by simp
next
  fix ws :: "string list" and s w :: string
  assume "find (\<lambda>w. w \<noteq> [] \<and> take (length w) s = w) ws = Some w"
  then have "w \<noteq> []" and "take (length w) s = w"
    by (auto simp: find_Some_iff)
  then have "0 < length w" by simp
  moreover from \<open>take (length w) s = w\<close> have "length (take (length w) s) = length w"
    by simp
  then have "length w \<le> length s"
    by simp
  ultimately show "((ws, drop (length w) s), (ws, s)) \<in> measure (\<lambda>(ws, s). length s)"
    by (cases w) auto
qed

declare strip_left.simps [simp del]

definition lstrip :: "string \<Rightarrow> string" where
  "lstrip s = strip_left whitespace s"

definition rstrip :: "string \<Rightarrow> string" where
  "rstrip s = rev (strip_left (map rev whitespace) (rev s))"

definition strip :: "string \<Rightarrow> string" where
  "strip s = rstrip (lstrip s)"

text \<open>Decimal text of an integer, as \<open>str(n)\<close> gives it.\<close>

definition digit_char :: "nat \<Rightarrow> char" where
  "digit_char d = ''0123456789'' ! d"

function str_nat :: "nat \<Rightarrow> string" where
  "str_nat n = (if n < 10 then [digit_char n] else str_nat (n div 10) @ [digit_char (n mod 10)])"
  by pat_completeness auto
termination
  by (relation "measure id") auto

declare str_nat.simps [simp del]

definition str_int :: "int \<Rightarrow> string" where
  "str_int i = (if i < 0 then CHR ''-'' # str_nat (nat (- i)) else str_nat (nat i))"

text \<open>
  \<open>str.zfill(width)\<close>: zeros are put on the left up to the width, after a leading
  sign when there is one.
\<close>

definition zfill :: "nat \<Rightarrow> string \<Rightarrow> string" where
  "zfill width s =
     (if width \<le> length s then s
      else (case s of
              c # cs \<Rightarrow>
                if c = CHR ''+'' \<or> c = CHR ''-''
                then c # replicate (width - length s) CHR ''0'' @ cs
                else replicate (width - length s) CHR ''0'' @ s
            | [] \<Rightarrow> replicate width CHR ''0''))"

text \<open>
  A cell of a table: an integer, a string, a missing number (\<open>NaN\<close>), \<open>None\<close>, or a
  timestamp at midnight given by its year, month and day.
\<close>

type_synonym date = "int \<times> int \<times> int"

datatype cell = IntV int | StrV string | NaN | NoneV | Timestamp date

definition str_date :: "date \<Rightarrow> string" where
  "str_date d =
     (case d of (y, m, dd) \<Rightarrow>
        zfill 4 (str_int y) @ ''-'' @ zfill 2 (str_int m) @ ''-'' @ zfill 2 (str_int dd))"

text \<open>
  \<open>isna\<close> is \<open>pd.isna\<close> on a scalar. \<open>py_str\<close> is the text that \<open>str(v)\<close> and an
  f-string give for a single value: a timestamp prints its time of day as well.
\<close>

definition isna :: "cell \<Rightarrow> bool" where
  "isna v \<longleftrightarrow> v = NaN \<or> v = NoneV"

definition py_str :: "cell \<Rightarrow> string" where
  "py_str v =
     (case v of
        IntV i \<Rightarrow> str_int i
      | StrV s \<Rightarrow> s
      | NaN \<Rightarrow> ''nan''
      | NoneV \<Rightarrow> ''None''
      | Timestamp d \<Rightarrow> str_date d @ '' 00:00:00'')"

text \<open>
  \<open>astype_str\<close> is one cell of \<open>Series.astype(str)\<close>: an integer gives its decimal text, a
  string stays, a timestamp at midnight gives its date. A missing value gives the text
  \<open>nan\<close> or \<open>None\<close>, as pandas before version 3 does; the statements below that depend on
  the text of a year are about integer years.
\<close>

definition astype_str :: "cell \<Rightarrow> string" where
  "astype_str v =
     (case v of
        IntV i \<Rightarrow> str_int i
      | StrV s \<Rightarrow> s
      | NaN \<Rightarrow> ''nan''
      | NoneV \<Rightarrow> ''None''
      | Timestamp d \<Rightarrow> str_date d)"

text \<open>
  Every exception of the source is a value. \<open>ValueError\<close> carries its message, as the
  source builds it; \<open>KeyError\<close> carries the missing column; \<open>TypeError\<close> is an
  operation on cells of the wrong kind.
\<close>

datatype error = ValueError string | KeyError string | TypeError

section \<open>date_utils: the month vocabulary\<close>

definition DUTCH_MONTHS :: "(string \<times> int) list" where
  "DUTCH_MONTHS =
     [(''januari'', 1), (''jan'', 1),
      (''februari'', 2), (''feb'', 2),
      (''maart'', 3), (''mrt'', 3),
      (''april'', 4), (''apr'', 4),
      (''mei'', 5),
      (''juni'', 6), (''jun'', 6),
      (''juli'', 7), (''jul'', 7),
      (''augustus'', 8), (''aug'', 8),
      (''september'', 9), (''sep'', 9),
      (''oktober'', 10), (''okt'', 10),
      (''november'', 11), (''nov'', 11),
      (''december'', 12), (''dec'', 12)]"

definition dutch_month_to_number :: "cell \<Rightarrow> error + int" where
  "dutch_month_to_number month_name =
     (case month_name of
        StrV s \<Rightarrow>
          (let month_clean = strip (lower s) in
           case map_of DUTCH_MONTHS month_clean of
             Some n \<Rightarrow> Inr n
           | None \<Rightarrow> Inl (ValueError (''Unknown Dutch month name: '' @ s)))
      | _ \<Rightarrow> Inl (ValueError (''Invalid month name: '' @ py_str month_name)))"

definition get_quarter_from_month :: "cell \<Rightarrow> error + string" where
  "get_quarter_from_month month_name =
     (case dutch_month_to_number month_name of
        Inl e \<Rightarrow> Inl e
      | Inr month_num \<Rightarrow>
          (let quarter = (month_num - 1) div 3 + 1 in Inr (''Q'' @ str_int quarter)))"

section \<open>Tables and the store\<close>

text \<open>
  A table (a pandas \<open>DataFrame\<close>) has a row index and named columns, in column order.
  Tables are mutable objects: the store holds them, a reference is a position in the
  store, \<open>df.copy()\<close> and boolean indexing allocate a new table, and a column
  assignment \<open>df[col] = values\<close> updates the table behind the reference in place.
\<close>

record dataframe =
  df_index :: "int list"
  df_columns :: "(string \<times> cell list) list"

type_synonym ref = nat

type_synonym heap = "dataframe list"

definition column_names :: "dataframe \<Rightarrow> string list" where
  "column_names df = map fst (df_columns df)"

definition getitem :: "dataframe \<Rightarrow> string \<Rightarrow> error + cell list" where
  "getitem df col =
     (case map_of (df_columns df) col of
        None \<Rightarrow> Inl (KeyError col)
      | Some vs \<Rightarrow> Inr vs)"

fun set_column :: "string \<Rightarrow> cell list \<Rightarrow> (string \<times> cell list) list \<Rightarrow> (string \<times> cell list) list" where
  "set_column col vs [] = [(col, vs)]"
| "set_column col vs ((c, ws) # cols) =
     (if c = col then (col, vs) # cols else (c, ws) # set_column col vs cols)"

definition setitem :: "dataframe \<Rightarrow> string \<Rightarrow> cell list \<Rightarrow> dataframe" where
  "setitem df col vs = df\<lparr>df_columns := set_column col vs (df_columns df)\<rparr>"

definition select_mask :: "bool list \<Rightarrow> 'a list \<Rightarrow> 'a list" where
  "select_mask keep xs = map snd (filter fst (zip keep xs))"

definition boolean_index :: "dataframe \<Rightarrow> bool list \<Rightarrow> dataframe" where
  "boolean_index df keep =
     \<lparr>df_index = select_mask keep (df_index df),
      df_columns = map (\<lambda>(c, vs). (c, select_mask keep vs)) (df_columns df)\<rparr>"

definition alloc :: "heap \<Rightarrow> dataframe \<Rightarrow> ref \<times> heap" where
  "alloc h df = (length h, h @ [df])"

definition copy_df :: "heap \<Rightarrow> ref \<Rightarrow> ref \<times> heap" where
  "copy_df h r = alloc h (h ! r)"

text \<open>
  \<open>Series.apply(f)\<close> calls \<open>f\<close> on the values in row order; the first exception
  ends the call.
\<close>

fun apply_series :: "('a \<Rightarrow> error + 'b) \<Rightarrow> 'a list \<Rightarrow> error + 'b list" where
  "apply_series f [] = Inr []"
| "apply_series f (x # xs) =
     (case f x of
        Inl e \<Rightarrow> Inl e
      | Inr y \<Rightarrow> (case apply_series f xs of Inl e \<Rightarrow> Inl e | Inr ys \<Rightarrow> Inr (y # ys)))"

definition quoted :: "string \<Rightarrow> string" where
  "quoted s = [CHR 0x27] @ s @ [CHR 0x27]"

section \<open>date_utils: derived columns\<close>

text \<open>
  \<open>pd.to_datetime\<close> belongs to the library: it is a parameter of the model, from the
  texts of a column to its dates or an exception.
\<close>

definition create_date_from_columns ::
  "(string list \<Rightarrow> error + date list) \<Rightarrow> dataframe \<Rightarrow> string \<Rightarrow> string \<Rightarrow> int \<Rightarrow> error + cell list" where
  "create_date_from_columns to_datetime df year_col month_col day =
     (if year_col \<notin> set (column_names df)
      then Inl (ValueError (''Year column '' @ quoted year_col @ '' not found in DataFrame''))
      else if month_col \<notin> set (column_names df)
      then Inl (ValueError (''Month column '' @ quoted month_col @ '' not found in DataFrame''))
      else
        (case getitem df month_col of
           Inl e \<Rightarrow> Inl e
         | Inr months \<Rightarrow>
             (case apply_series dutch_month_to_number months of
                Inl e \<Rightarrow> Inl e
              | Inr month_numbers \<Rightarrow>
                  (case getitem df year_col of
                     Inl e \<Rightarrow> Inl e
                   | Inr years \<Rightarrow>
                       (case to_datetime
                               (map2 (\<lambda>y m. astype_str y @ ''-'' @ str_int m @ ''-'' @ str_int day)
                                  years month_numbers) of
                          Inl e \<Rightarrow> Inl e
                        | Inr dates \<Rightarrow> Inr (map Timestamp dates))))))"

definition add_date_column ::
  "(string list \<Rightarrow> error + date list) \<Rightarrow> heap \<Rightarrow> ref \<Rightarrow> string \<Rightarrow> string \<Rightarrow> string \<Rightarrow> int
     \<Rightarrow> (error + ref) \<times> heap" where
  "add_date_column to_datetime h df year_col month_col date_col_name day =
     (case copy_df h df of
        (df_copy, h1) \<Rightarrow>
          (case create_date_from_columns to_datetime (h1 ! df_copy) year_col month_col day of
             Inl e \<Rightarrow> (Inl e, h1)
           | Inr dates \<Rightarrow>
               (Inr df_copy, h1[df_copy := setitem (h1 ! df_copy) date_col_name dates])))"

definition create_period_column ::
  "dataframe \<Rightarrow> string \<Rightarrow> string \<Rightarrow> string \<Rightarrow> error + cell list" where
  "create_period_column df year_col month_col period_type =
     (if period_type = ''year'' then
        (case getitem df year_col of
           Inl e \<Rightarrow> Inl e
         | Inr years \<Rightarrow> Inr (map (\<lambda>y. StrV (astype_str y)) years))
      else if period_type = ''month'' then
        (case getitem df month_col of
           Inl e \<Rightarrow> Inl e
         | Inr months \<Rightarrow>
             (case apply_series dutch_month_to_number months of
                Inl e \<Rightarrow> Inl e
              | Inr month_numbers \<Rightarrow>
                  (case getitem df year_col of
                     Inl e \<Rightarrow> Inl e
                   | Inr years \<Rightarrow>
                       Inr (map2 (\<lambda>y m. StrV (astype_str y @ ''-'' @ zfill 2 (str_int m)))
                              years month_numbers))))
      else if period_type = ''quarter'' then
        (case getitem df month_col of
           Inl e \<Rightarrow> Inl e
         | Inr months \<Rightarrow>
             (case apply_series dutch_month_to_number months of
                Inl e \<Rightarrow> Inl e
              | Inr month_numbers \<Rightarrow>
                  (let quarters = map (\<lambda>m. (m - 1) div 3 + 1) month_numbers in
                   case getitem df year_col of
                     Inl e \<Rightarrow> Inl e
                   | Inr years \<Rightarrow>
                       Inr (map2 (\<lambda>y q. StrV (astype_str y @ ''-Q'' @ str_int q)) years quarters))))
      else Inl (ValueError (''Unknown period_type: '' @ period_type @ ''. Use '' @ quoted ''month''
                  @ '', '' @ quoted ''quarter'' @ '', or '' @ quoted ''year'')))"

text \<open>
  Adding a string to a cell: a string is extended, a missing value stays missing, and a
  number or a timestamp raises \<open>TypeError\<close>.
\<close>

definition cell_add_str :: "string \<Rightarrow> cell \<Rightarrow> error + cell" where
  "cell_add_str t v =
     (case v of
        StrV s \<Rightarrow> Inr (StrV (s @ t))
      | NaN \<Rightarrow> Inr NaN
      | NoneV \<Rightarrow> Inr NaN
      | _ \<Rightarrow> Inl TypeError)"

definition series_add_str :: "cell list \<Rightarrow> string list \<Rightarrow> error + cell list" where
  "series_add_str vs ts = apply_series (\<lambda>(v, t). cell_add_str t v) (zip vs ts)"

definition format_period_for_display ::
  "dataframe \<Rightarrow> string \<Rightarrow> string \<Rightarrow> string \<Rightarrow> error + cell list" where
  "format_period_for_display df year_col month_col format_type =
     (if format_type = ''full'' then
        (case getitem df month_col of
           Inl e \<Rightarrow> Inl e
         | Inr months \<Rightarrow>
             (case apply_series (cell_add_str '' '') months of
                Inl e \<Rightarrow> Inl e
              | Inr labels \<Rightarrow>
                  (case getitem df year_col of
                     Inl e \<Rightarrow> Inl e
                   | Inr years \<Rightarrow> series_add_str labels (map astype_str years))))
      else if format_type = ''short'' then
        (case getitem df month_col of
           Inl e \<Rightarrow> Inl e
         | Inr months \<Rightarrow>
             (let short_months = map (\<lambda>x. case x of StrV s \<Rightarrow> StrV (take 3 s) | _ \<Rightarrow> x) months in
              case apply_series (cell_add_str '' '') short_months of
                Inl e \<Rightarrow> Inl e
              | Inr labels \<Rightarrow>
                  (case getitem df year_col of
                     Inl e \<Rightarrow> Inl e
                   | Inr years \<Rightarrow> series_add_str labels (map astype_str years))))
      else if format_type = ''compact'' then create_period_column df year_col month_col ''month''
      else Inl (ValueError (''Unknown format_type: '' @ format_type @ ''. Use '' @ quoted ''full''
                  @ '', '' @ quoted ''short'' @ '', or '' @ quoted ''compact'')))"

definition standardize_date_columns ::
  "(string list \<Rightarrow> error + date list) \<Rightarrow> heap \<Rightarrow> ref \<Rightarrow> string \<Rightarrow> string \<Rightarrow> (error + ref) \<times> heap" where
  "standardize_date_columns to_datetime h df year_col month_col =
     (case copy_df h df of
        (df_result0, h0) \<Rightarrow>
          (case add_date_column to_datetime h0 df_result0 year_col month_col ''datum'' 1 of
             (Inl e, h1) \<Rightarrow> (Inl e, h1)
           | (Inr df_result, h1) \<Rightarrow>
               (case create_period_column (h1 ! df_result) year_col month_col ''month'' of
                  Inl e \<Rightarrow> (Inl e, h1)
                | Inr periode \<Rightarrow>
                    (let h2 = h1[df_result := setitem (h1 ! df_result) ''periode'' periode] in
                     case create_period_column (h2 ! df_result) year_col month_col ''quarter'' of
                       Inl e \<Rightarrow> (Inl e, h2)
                     | Inr kwartaal \<Rightarrow>
                         (let h3 = h2[df_result := setitem (h2 ! df_result) ''kwartaal'' kwartaal] in
                          case format_period_for_display (h3 ! df_result) year_col month_col ''full'' of
                            Inl e \<Rightarrow> (Inl e, h3)
                          | Inr periode_display \<Rightarrow>
                              (Inr df_result,
                               h3[df_result :=
                                    setitem (h3 ! df_result) ''periode_display'' periode_display]))))))"

section \<open>date_utils: the period filter\<close>

text \<open>
  Comparing a column with a year: an integer compares, a missing value compares false,
  a string or a timestamp raises \<open>TypeError\<close>. \<open>isin\<close> is equality with a member of
  the list, so only a string cell can be in a list of strings.
\<close>

definition cell_ge :: "int \<Rightarrow> cell \<Rightarrow> error + bool" where
  "cell_ge k v = (case v of IntV i \<Rightarrow> Inr (k \<le> i) | NaN \<Rightarrow> Inr False | NoneV \<Rightarrow> Inr False | _ \<Rightarrow> Inl TypeError)"

definition cell_le :: "int \<Rightarrow> cell \<Rightarrow> error + bool" where
  "cell_le k v = (case v of IntV i \<Rightarrow> Inr (i \<le> k) | NaN \<Rightarrow> Inr False | NoneV \<Rightarrow> Inr False | _ \<Rightarrow> Inl TypeError)"

definition cell_isin :: "string list \<Rightarrow> cell \<Rightarrow> error + bool" where
  "cell_isin months v = Inr (case v of StrV s \<Rightarrow> s \<in> set months | _ \<Rightarrow> False)"

text \<open>One filtering statement \<open>df = df[test(df[col])]\<close>: a new table is allocated.\<close>

definition filter_rows ::
  "heap \<Rightarrow> ref \<Rightarrow> string \<Rightarrow> (cell \<Rightarrow> error + bool) \<Rightarrow> (error + ref) \<times> heap" where
  "filter_rows h df col test =
     (case getitem (h ! df) col of
        Inl e \<Rightarrow> (Inl e, h)
      | Inr vs \<Rightarrow>
          (case apply_series test vs of
             Inl e \<Rightarrow> (Inl e, h)
           | Inr keep \<Rightarrow> (case alloc h (boolean_index (h ! df) keep) of (r, h') \<Rightarrow> (Inr r, h'))))"

definition filter_by_period ::
  "heap \<Rightarrow> ref \<Rightarrow> string \<Rightarrow> string \<Rightarrow> int option \<Rightarrow> int option \<Rightarrow> string list option
     \<Rightarrow> (error + ref) \<times> heap" where
  "filter_by_period h df year_col month_col start_year end_year months =
     (case copy_df h df of
        (df_filtered0, h0) \<Rightarrow>
          (case (case start_year of
                   None \<Rightarrow> (Inr df_filtered0, h0)
                 | Some s \<Rightarrow> filter_rows h0 df_filtered0 year_col (cell_ge s)) of
             (Inl e, h1) \<Rightarrow> (Inl e, h1)
           | (Inr df_filtered1, h1) \<Rightarrow>
               (case (case end_year of
                        None \<Rightarrow> (Inr df_filtered1, h1)
                      | Some e \<Rightarrow> filter_rows h1 df_filtered1 year_col (cell_le e)) of
                  (Inl e, h2) \<Rightarrow> (Inl e, h2)
                | (Inr df_filtered2, h2) \<Rightarrow>
                    (case months of
                       None \<Rightarrow> (Inr df_filtered2, h2)
                     | Some ms \<Rightarrow> filter_rows h2 df_filtered2 month_col (cell_isin ms)))))"

section \<open>building_permits_report: grouping\<close>

text \<open>
  The report functions receive the rows of one region, with the year, the raw month
  label, the quarter key and the three permit counts. Years and counts are 64-bit
  integers.
\<close>

record observation =
  jaar :: int
  maand :: string
  kwartaal :: string
  alle_woningen :: int
  aantal_huizen :: int
  aantal_flats :: int

text \<open>
  \<open>groupby(keys).agg('sum')\<close>: one group per distinct key, the groups in ascending key
  order, each metric summed over the rows of the group. The columns are \<open>int64\<close>, so a
  sum wraps around at 64 bits.
\<close>

definition int64 :: "int \<Rightarrow> int" where
  "int64 x = (x + 2 ^ 63) mod 2 ^ 64 - 2 ^ 63"

definition group_keys :: "('r \<Rightarrow> 'k::linorder) \<Rightarrow> 'r list \<Rightarrow> 'k list" where
  "group_keys key rows = sort (remdups (map key rows))"

definition group_total :: "('r \<Rightarrow> 'k) \<Rightarrow> ('r \<Rightarrow> int) \<Rightarrow> 'r list \<Rightarrow> 'k \<Rightarrow> int" where
  "group_total key val rows k = int64 (sum_list (map val (filter (\<lambda>r. key r = k) rows)))"

section \<open>building_permits_report: the rolling average chart\<close>

record monthly =
  mo_jaar :: int
  mo_maand :: string
  mo_alle_woningen :: int
  mo_aantal_huizen :: int
  mo_aantal_flats :: int

definition monthly_grouped :: "observation list \<Rightarrow> monthly list" where
  "monthly_grouped region_data =
     (let region_data_filtered = filter (\<lambda>r. 2015 \<le> jaar r) region_data;
          key = (\<lambda>r. (jaar r, maand r))
      in map (\<lambda>k. \<lparr>mo_jaar = fst k, mo_maand = snd k,
                     mo_alle_woningen = group_total key alle_woningen region_data_filtered k,
                     mo_aantal_huizen = group_total key aantal_huizen region_data_filtered k,
                     mo_aantal_flats = group_total key aantal_flats region_data_filtered k\<rparr>)
           (group_keys key region_data_filtered))"

definition month_mapping :: "(string \<times> int) list" where
  "month_mapping =
     [(''Januari'', 1), (''Februari'', 2), (''Maart'', 3), (''April'', 4),
      (''Mei'', 5), (''Juni'', 6), (''Juli'', 7), (''Augustus'', 8),
      (''September'', 9), (''Oktober'', 10), (''November'', 11), (''December'', 12)]"

text \<open>
  \<open>map(month_mapping)\<close> gives a missing value for a label that is no key of the
  dictionary, and \<open>dropna\<close> removes those rows.
\<close>

definition monthly_mapped :: "monthly list \<Rightarrow> (monthly \<times> int) list" where
  "monthly_mapped monthly_data =
     List.map_filter
       (\<lambda>r. case map_of month_mapping (mo_maand r) of
              None \<Rightarrow> None
            | Some maand_nummer \<Rightarrow> Some (r, maand_nummer))
       monthly_data"

definition monthly_series ::
  "(string list \<Rightarrow> error + date list) \<Rightarrow> observation list \<Rightarrow> error + (date \<times> monthly \<times> int) list" where
  "monthly_series to_datetime region_data =
     (let monthly_data = monthly_mapped (monthly_grouped region_data) in
      case to_datetime
             (map (\<lambda>(r, maand_nummer).
                     str_int (mo_jaar r) @ ''-'' @ zfill 2 (str_int maand_nummer) @ ''-01'')
                monthly_data) of
        Inl e \<Rightarrow> Inl e
      | Inr datum \<Rightarrow> Inr (sort_key fst (zip datum monthly_data)))"

text \<open>
  \<open>rolling(window, min_periods).mean()\<close> of the library, for a fixed window: the window
  of position \<open>i\<close> is \<open>[max(0, i + 1 - window), i + 1)\<close>; a running sum and a running
  count are kept, the values that leave the window are removed and the values that
  enter it are added, and the mean is the sum over the count when the count reaches
  \<open>min_periods\<close>, a missing value otherwise. Sums and means are exact rationals here.
\<close>

definition add_mean :: "int \<times> nat \<Rightarrow> int \<Rightarrow> int \<times> nat" where
  "add_mean st v = (fst st + v, snd st + 1)"

definition remove_mean :: "int \<times> nat \<Rightarrow> int \<Rightarrow> int \<times> nat" where
  "remove_mean st v = (fst st - v, snd st - 1)"

definition calc_mean :: "nat \<Rightarrow> int \<times> nat \<Rightarrow> rat option" where
  "calc_mean minp st =
     (if minp \<le> snd st \<and> 0 < snd st then Some (of_int (fst st) / of_nat (snd st)) else None)"

definition window_start :: "nat \<Rightarrow> nat \<Rightarrow> nat" where
  "window_start window i = nat (max 0 (int i + 1 - int window))"

definition window_end :: "nat \<Rightarrow> nat" where
  "window_end i = i + 1"

definition slice :: "'a list \<Rightarrow> nat \<Rightarrow> nat \<Rightarrow> 'a list" where
  "slice xs a b = take (b - a) (drop a xs)"

fun roll_mean_loop :: "nat \<Rightarrow> nat \<Rightarrow> int list \<Rightarrow> nat \<Rightarrow> nat \<Rightarrow> int \<times> nat \<Rightarrow> rat option list" where
  "roll_mean_loop window minp vals 0 i st = []"
| "roll_mean_loop window minp vals (Suc remaining) i st =
     (let s = window_start window i;
          e = window_end i;
          st' = (if i = 0 \<or> window_end (i - 1) \<le> s
                 then foldl add_mean (0, 0) (slice vals s e)
                 else foldl add_mean
                        (foldl remove_mean st (slice vals (window_start window (i - 1)) s))
                        (slice vals (window_end (i - 1)) e))
      in calc_mean minp st' # roll_mean_loop window minp vals remaining (i + 1) st')"

definition rolling_mean :: "nat \<Rightarrow> nat \<Rightarrow> int list \<Rightarrow> rat option list" where
  "rolling_mean window minp vals = roll_mean_loop window minp vals (length vals) 0 (0, 0)"

record rolling_chart =
  chart_datum :: "date list"
  rolling_aantal_huizen :: "rat option list"
  rolling_aantal_flats :: "rat option list"
  rolling_alle_woningen :: "rat option list"

definition create_rolling_average_chart ::
  "(string list \<Rightarrow> error + date list) \<Rightarrow> observation list \<Rightarrow> error + rolling_chart" where
  "create_rolling_average_chart to_datetime region_data =
     (case monthly_series to_datetime region_data of
        Inl e \<Rightarrow> Inl e
      | Inr monthly_data \<Rightarrow>
          Inr \<lparr>chart_datum = map fst monthly_data,
               rolling_aantal_huizen =
                 rolling_mean 12 1 (map (\<lambda>(d, r, n). mo_aantal_huizen r) monthly_data),
               rolling_aantal_flats =
                 rolling_mean 12 1 (map (\<lambda>(d, r, n). mo_aantal_flats r) monthly_data),
               rolling_alle_woningen =
                 rolling_mean 12 1 (map (\<lambda>(d, r, n). mo_alle_woningen r) monthly_data)\<rparr>)"

text \<open>
  The rolling average as the specification words it: the arithmetic mean of the values
  at the positions \<open>max(0, i - window + 1)\<close> to \<open>i\<close>, both included.
\<close>

definition trailing_window :: "nat \<Rightarrow> int list \<Rightarrow> nat \<Rightarrow> int list" where
  "trailing_window window vals i =
     map (\<lambda>j. vals ! j) [nat (max 0 (int i - int window + 1)) ..< Suc i]"

definition arithmetic_mean :: "int list \<Rightarrow> rat" where
  "arithmetic_mean xs = of_int (sum_list xs) / of_nat (length xs)"

section \<open>building_permits_report: the year by quarter table\<close>

record quarterly =
  yq_jaar :: int
  yq_kwartaal :: string
  yq_alle_woningen :: int

definition yearly_quarterly :: "observation list \<Rightarrow> quarterly list" where
  "yearly_quarterly region_data =
     (let region_data_filtered = filter (\<lambda>r. 2015 \<le> jaar r) region_data;
          key = (\<lambda>r. (jaar r, kwartaal r))
      in map (\<lambda>k. \<lparr>yq_jaar = fst k, yq_kwartaal = snd k,
                     yq_alle_woningen = group_total key alle_woningen region_data_filtered k\<rparr>)
           (group_keys key region_data_filtered))"

text \<open>
  \<open>str.extract(r'Q(\d)')\<close>: the digit after the first \<open>Q\<close> that is followed by a
  digit, a missing value when there is none.
\<close>

definition is_digit :: "char \<Rightarrow> bool" where
  "is_digit c \<longleftrightarrow> c \<in> set ''0123456789''"

fun extract_quarter_num :: "string \<Rightarrow> string option" where
  "extract_quarter_num (c # d # cs) =
     (if c = CHR ''Q'' \<and> is_digit d then Some [d] else extract_quarter_num (d # cs))"
| "extract_quarter_num cs = None"

text \<open>
  A pivoted table: the row labels, the column labels (a missing label is \<open>None\<close>) and
  the cell of each row and column.
\<close>

record 'v wide_table =
  wt_index :: "int list"
  wt_columns :: "string option list"
  wt_value :: "int \<Rightarrow> string option \<Rightarrow> 'v"

text \<open>
  \<open>pivot\<close> raises when a pair of row and column label occurs twice. Its rows and columns
  are the distinct labels in ascending order, a missing label last, and a cell without
  an observation is missing.
\<close>

definition pivot :: "(quarterly \<times> string option) list \<Rightarrow> error + int option wide_table" where
  "pivot rows =
     (if \<not> distinct (map (\<lambda>(r, q). (yq_jaar r, q)) rows)
      then Inl (ValueError ''Index contains duplicate entries, cannot reshape'')
      else Inr \<lparr>wt_index = sort (remdups (map (\<lambda>(r, q). yq_jaar r) rows)),
                wt_columns =
                  map Some (sort (remdups (List.map_filter snd rows)))
                  @ (if None \<in> set (map snd rows) then [None] else []),
                wt_value =
                  (\<lambda>j q. map_of (map (\<lambda>(r, q). ((yq_jaar r, q), yq_alle_woningen r)) rows) (j, q))\<rparr>)"

definition fillna :: "int \<Rightarrow> int option wide_table \<Rightarrow> int wide_table" where
  "fillna d t =
     \<lparr>wt_index = wt_index t, wt_columns = wt_columns t,
      wt_value = (\<lambda>j q. case wt_value t j q of None \<Rightarrow> d | Some v \<Rightarrow> v)\<rparr>"

definition ensure_column :: "int wide_table \<Rightarrow> string \<Rightarrow> int wide_table" where
  "ensure_column t q =
     (if Some q \<notin> set (wt_columns t)
      then \<lparr>wt_index = wt_index t, wt_columns = wt_columns t @ [Some q],
            wt_value = (\<lambda>j c. if c = Some q then 0 else wt_value t j c)\<rparr>
      else t)"

definition select_columns :: "int wide_table \<Rightarrow> string list \<Rightarrow> error + int wide_table" where
  "select_columns t qs =
     (case find (\<lambda>q. Some q \<notin> set (wt_columns t)) qs of
        Some q \<Rightarrow> Inl (KeyError q)
      | None \<Rightarrow> Inr \<lparr>wt_index = wt_index t, wt_columns = map Some qs, wt_value = wt_value t\<rparr>)"

definition add_totaal :: "int wide_table \<Rightarrow> int wide_table" where
  "add_totaal t =
     \<lparr>wt_index = wt_index t, wt_columns = wt_columns t @ [Some ''Totaal''],
      wt_value = (\<lambda>j c. if c = Some ''Totaal''
                          then sum_list (map (wt_value t j) (wt_columns t))
                          else wt_value t j c)\<rparr>"

definition pivot_table :: "observation list \<Rightarrow> error + int wide_table" where
  "pivot_table region_data =
     (let rows = map (\<lambda>r. (r, extract_quarter_num (yq_kwartaal r))) (yearly_quarterly region_data) in
      case pivot rows of
        Inl e \<Rightarrow> Inl e
      | Inr p \<Rightarrow>
          (case select_columns (foldl ensure_column (fillna 0 p) [''1'', ''2'', ''3'', ''4''])
                  [''1'', ''2'', ''3'', ''4''] of
             Inl e \<Rightarrow> Inl e
           | Inr t \<Rightarrow> Inr (add_totaal t)))"

text \<open>The rows of the rendered table, in the order of the loop: year, quarter cells, total.\<close>

definition table_rows :: "int wide_table \<Rightarrow> (int \<times> int list \<times> int) list" where
  "table_rows t =
     map (\<lambda>year. (year,
                   map (\<lambda>quarter. wt_value t year (Some quarter)) [''1'', ''2'', ''3'', ''4''],
                   wt_value t year (Some ''Totaal'')))
       (sort (wt_index t))"

text \<open>\<open>f'{value:,}'\<close>: the decimal text with a comma between groups of three digits.\<close>

fun commas :: "string \<Rightarrow> string" where
  "commas (a # b # c # d # rest) = a # b # c # CHR '','' # commas (d # rest)"
| "commas s = s"

definition format_thousands :: "int \<Rightarrow> string" where
  "format_thousands v =
     (if v < 0 then ''-'' else []) @ rev (commas (rev (str_nat (nat \<bar>v\<bar>))))"

definition render_row :: "int \<times> int list \<times> int \<Rightarrow> string" where
  "render_row row =
     (case row of (year, cells, total_value) \<Rightarrow>
        ''<tr>'' @ [CHR 0x0A] @ ''<td><strong>'' @ str_int year @ ''</strong></td>'' @ [CHR 0x0A]
        @ concat (map (\<lambda>v. ''<td>'' @ format_thousands v @ ''</td>'' @ [CHR 0x0A]) cells)
        @ ''<td><strong>'' @ format_thousands total_value @ ''</strong></td>'' @ [CHR 0x0A]
        @ ''</tr>'' @ [CHR 0x0A])"

definition create_yearly_quarterly_table :: "observation list \<Rightarrow> error + string" where
  "create_yearly_quarterly_table region_data =
     (case pivot_table region_data of
        Inl e \<Rightarrow> Inl e
      | Inr t \<Rightarrow>
          Inr (''<table class='' @ [CHR 0x22] @ ''quarterly-table'' @ [CHR 0x22] @ ''>'' @ [CHR 0x0A]
               @ ''<thead>'' @ [CHR 0x0A] @ ''<tr>'' @ [CHR 0x0A]
               @ ''<th>Jaar</th><th>Q1</th><th>Q2</th><th>Q3</th><th>Q4</th><th>Totaal</th>''
               @ [CHR 0x0A] @ ''</tr>'' @ [CHR 0x0A] @ ''</thead>'' @ [CHR 0x0A]
               @ ''<tbody>'' @ [CHR 0x0A]
               @ concat (map render_row (table_rows t))
               @ ''</tbody>'' @ [CHR 0x0A] @ ''</table>'' @ [CHR 0x0A]))"

section \<open>The vocabulary as the specification words it\<close>

definition full_month_names :: "string list" where
  "full_month_names =
     [''januari'', ''februari'', ''maart'', ''april'', ''mei'', ''juni'', ''juli'',
      ''augustus'', ''september'', ''oktober'', ''november'', ''december'']"

definition month_abbreviations :: "string list" where
  "month_abbreviations =
     [''jan'', ''feb'', ''mrt'', ''apr'', ''mei'', ''jun'', ''jul'', ''aug'', ''sep'',
      ''okt'', ''nov'', ''dec'']"

text \<open>A month number with two digits, as the format \<open>02d\<close> writes it.\<close>

definition two_digits :: "int \<Rightarrow> string" where
  "two_digits n = [digit_char (nat n div 10), digit_char (nat n mod 10)]"

definition four_digits :: "int \<Rightarrow> string" where
  "four_digits y =
     [digit_char (nat y div 1000), digit_char (nat y div 100 mod 10),
      digit_char (nat y div 10 mod 10), digit_char (nat y mod 10)]"

text \<open>The running sum and count that the library holds after position \<open>i\<close>.\<close>

definition window_state :: "nat \<Rightarrow> int list \<Rightarrow> nat \<Rightarrow> int \<times> nat" where
  "window_state window vals i =
     (sum_list (slice vals (window_start window i) (window_end i)),
      length (slice vals (window_start window i) (window_end i)))"

text \<open>The twelve capitalized full month names.\<close>

definition capitalized_month_names :: "string list" where
  "capitalized_month_names =
     [''Januari'', ''Februari'', ''Maart'', ''April'', ''Mei'', ''Juni'', ''Juli'',
      ''Augustus'', ''September'', ''Oktober'', ''November'', ''December'']"

text \<open>
  The table that \<open>standardize_date_columns\<close> builds from the table \<open>df\<close>: its four
  column assignments in order, as a value. The names of the four columns.
\<close>

definition standardized ::
  "(string list \<Rightarrow> error + date list) \<Rightarrow> dataframe \<Rightarrow> string \<Rightarrow> string \<Rightarrow> error + dataframe" where
  "standardized to_datetime df year_col month_col =
     (case create_date_from_columns to_datetime df year_col month_col 1 of
        Inl e \<Rightarrow> Inl e
      | Inr datum \<Rightarrow>
          (let df1 = setitem df ''datum'' datum in
           case create_period_column df1 year_col month_col ''month'' of
             Inl e \<Rightarrow> Inl e
           | Inr periode \<Rightarrow>
               (let df2 = setitem df1 ''periode'' periode in
                case create_period_column df2 year_col month_col ''quarter'' of
                  Inl e \<Rightarrow> Inl e
                | Inr kwartaal_keys \<Rightarrow>
                    (let df3 = setitem df2 ''kwartaal'' kwartaal_keys in
                     case format_period_for_display df3 year_col month_col ''full'' of
                       Inl e \<Rightarrow> Inl e
                     | Inr periode_display \<Rightarrow>
                         Inr (setitem df3 ''periode_display'' periode_display)))))"


text \<open>
  A table is well formed when every column has one value for each row. The period
  filter as the specification words it: a row is kept when its year is not below the
  start year, not above the end year, and its raw month label is one of the given
  labels, each test only when its bound is given.
\<close>

definition wf_table :: "dataframe \<Rightarrow> bool" where
  "wf_table df \<longleftrightarrow> (\<forall>cv \<in> set (df_columns df). length (snd cv) = length (df_index df))"

definition year_from :: "int option \<Rightarrow> cell \<Rightarrow> bool" where
  "year_from start_year y =
     (case start_year of
        None \<Rightarrow> True
      | Some s \<Rightarrow> (case y of IntV i \<Rightarrow> s \<le> i | _ \<Rightarrow> False))"

definition year_upto :: "int option \<Rightarrow> cell \<Rightarrow> bool" where
  "year_upto end_year y =
     (case end_year of
        None \<Rightarrow> True
      | Some e \<Rightarrow> (case y of IntV i \<Rightarrow> i \<le> e | _ \<Rightarrow> False))"

definition month_among :: "string list option \<Rightarrow> cell \<Rightarrow> bool" where
  "month_among months m =
     (case months of
        None \<Rightarrow> True
      | Some ms \<Rightarrow> (case m of StrV t \<Rightarrow> t \<in> set ms | _ \<Rightarrow> False))"

definition row_in_period :: "int option \<Rightarrow> int option \<Rightarrow> string list option \<Rightarrow> cell \<Rightarrow> cell \<Rightarrow> bool" where
  "row_in_period start_year end_year months y m \<longleftrightarrow>
     year_from start_year y \<and> year_upto end_year y \<and> month_among months m"

section \<open>Sample inputs\<close>

text \<open>
  A stand-in for \<open>pd.to_datetime\<close> on texts of the form year-month-day, and the rows of
  a small region: two rows of January 2023, one of February 2023, one with the label
  \<open>Smarch\<close> and one of 2014.
\<close>

fun split_on :: "char \<Rightarrow> string \<Rightarrow> string list" where
  "split_on c [] = [[]]"
| "split_on c (x # xs) =
     (if x = c then [] # split_on c xs
      else (case split_on c xs of w # ws \<Rightarrow> (x # w) # ws | [] \<Rightarrow> [[x]]))"

definition digit_value :: "char \<Rightarrow> int" where
  "digit_value c = int (length (takeWhile (\<lambda>d. d \<noteq> c) ''0123456789''))"

definition read_int :: "string \<Rightarrow> int" where
  "read_int s = foldl (\<lambda>n c. 10 * n + digit_value c) 0 s"

definition sample_to_datetime :: "string list \<Rightarrow> error + date list" where
  "sample_to_datetime texts =
     apply_series
       (\<lambda>s. case split_on CHR ''-'' s of
               [y, m, d] \<Rightarrow> Inr (read_int y, read_int m, read_int d)
             | _ \<Rightarrow> Inl (ValueError (''Unknown datetime string format: '' @ s)))
       texts"

definition sample_region :: "observation list" where
  "sample_region =
     [\<lparr>jaar = 2023, maand = ''Februari'', kwartaal = ''2023-Q1'',
       alle_woningen = 110, aantal_huizen = 70, aantal_flats = 40\<rparr>,
      \<lparr>jaar = 2023, maand = ''Januari'', kwartaal = ''2023-Q1'',
       alle_woningen = 60, aantal_huizen = 40, aantal_flats = 20\<rparr>,
      \<lparr>jaar = 2023, maand = ''Smarch'', kwartaal = ''2023-Q1'',
       alle_woningen = 7, aantal_huizen = 4, aantal_flats = 3\<rparr>,
      \<lparr>jaar = 2023, maand = ''Januari'', kwartaal = ''2023-Q1'',
       alle_woningen = 40, aantal_huizen = 20, aantal_flats = 20\<rparr>,
      \<lparr>jaar = 2014, maand = ''Januari'', kwartaal = ''2014-Q1'',
       alle_woningen = 5, aantal_huizen = 3, aantal_flats = 2\<rparr>]"

text \<open>
  The five rows of the example of \<open>date_utils\<close>, and two tables with the label
  \<open>Smarch\<close> in the first and in the second row.
\<close>

definition sample_table :: dataframe where
  "sample_table =
     \<lparr>df_index = [0, 1, 2, 3, 4],
      df_columns =
        [(''jaar'', [IntV 2023, IntV 2023, IntV 2023, IntV 2024, IntV 2024]),
         (''maand'', [StrV ''Januari'', StrV ''Februari'', StrV ''Maart'', StrV ''April'', StrV ''Mei'']),
         (''waarde'', [IntV 100, IntV 110, IntV 120, IntV 130, IntV 140])]\<rparr>"

definition smarch_first :: dataframe where
  "smarch_first =
     \<lparr>df_index = [10, 11],
      df_columns = [(''jaar'', [IntV 2023, IntV 2023]),
                    (''maand'', [StrV ''Smarch'', StrV ''Januari''])]\<rparr>"

definition smarch_second :: dataframe where
  "smarch_second =
     \<lparr>df_index = [10, 11],
      df_columns = [(''jaar'', [IntV 2023, IntV 2023]),
                    (''maand'', [StrV ''Januari'', StrV ''Smarch''])]\<rparr>"






section \<open>The month vocabulary\<close>

lemmas string_eval =
  strip_def lstrip_def rstrip_def strip_left.simps whitespace_def lower.simps lower_char_def

lemma DUTCH_MONTHS_range: "map_of DUTCH_MONTHS k = Some n \<Longrightarrow> 1 \<le> n \<and> n \<le> 12"
  by (auto simp: DUTCH_MONTHS_def split: if_splits)

lemma dutch_month_to_number_Str:
  "dutch_month_to_number (StrV s) =
     (case map_of DUTCH_MONTHS (strip (lower s)) of
        Some n \<Rightarrow> Inr n
      | None \<Rightarrow> Inl (ValueError (''Unknown Dutch month name: '' @ s)))"
  by (simp add: dutch_month_to_number_def)

lemma dutch_month_to_number_not_Str:
  "(\<forall>s. v \<noteq> StrV s) \<Longrightarrow>
   dutch_month_to_number v = Inl (ValueError (''Invalid month name: '' @ py_str v))"
  by (cases v) (simp_all add: dutch_month_to_number_def)

lemma strip_lower_examples:
  "strip (lower ''januari'') = ''januari''"
  "strip (lower ''Jan'') = ''jan''"
  "strip (lower '' JANUARI '') = ''januari''"
  "strip (lower ''Smarch'') = ''smarch''"
  "strip (lower ([CHR 0xC2, CHR 0xA0] @ ''jan'')) = ''jan''"
  "strip (lower (''o'' @ [CHR 0xE2, CHR 0x84, CHR 0xAA] @ ''t'' @ [CHR 0xE3, CHR 0x80, CHR 0x80]))
     = ''okt''"
  by (simp_all add: string_eval)

lemma dom_DUTCH_MONTHS:
  "dom (map_of DUTCH_MONTHS) = set full_month_names \<union> set month_abbreviations"
  by (auto simp: dom_map_of_conv_image_fst DUTCH_MONTHS_def full_month_names_def
      month_abbreviations_def)

text \<open>
  Claim C3. \<open>dutch_month_to_number\<close> lower-cases and trims its input and looks it up in
  the vocabulary, which is the 12 full month names together with the 12 three-letter
  abbreviations (\<open>mei\<close> is both): a label of the vocabulary gives its month number,
  between 1 and 12; a string outside the vocabulary raises the "unknown month" error; a
  value that is no string raises the "invalid month" error. So \<open>januari\<close>, \<open>Jan\<close> and
  \<open> JANUARI \<close> give 1 and \<open>Smarch\<close> is unknown. Trimming and lower-casing are those of
  Python on Unicode text: \<open>jan\<close> after a no-break space (U+00A0) gives 1, and so does
  \<open>oKt\<close> written with the Kelvin sign (U+212A) and followed by an ideographic space
  (U+3000) give 10.
\<close>

theorem month_to_number_vocabulary:
  "(map_of DUTCH_MONTHS (strip (lower s)) = Some n \<longrightarrow>
      dutch_month_to_number (StrV s) = Inr n \<and> 1 \<le> n \<and> n \<le> 12)
   \<and> (strip (lower s) \<notin> set full_month_names \<union> set month_abbreviations \<longrightarrow>
      dutch_month_to_number (StrV s) = Inl (ValueError (''Unknown Dutch month name: '' @ s)))
   \<and> ((\<forall>t. v \<noteq> StrV t) \<longrightarrow>
      dutch_month_to_number v = Inl (ValueError (''Invalid month name: '' @ py_str v)))
   \<and> dom (map_of DUTCH_MONTHS) = set full_month_names \<union> set month_abbreviations
   \<and> map (map_of DUTCH_MONTHS) full_month_names = map Some [1, 2, 3, 4, 5, 6, 7, 8, 9, 10, 11, 12]
   \<and> map (map_of DUTCH_MONTHS) month_abbreviations = map Some [1, 2, 3, 4, 5, 6, 7, 8, 9, 10, 11, 12]
   \<and> dutch_month_to_number (StrV ''januari'') = Inr 1
   \<and> dutch_month_to_number (StrV ''Jan'') = Inr 1
   \<and> dutch_month_to_number (StrV '' JANUARI '') = Inr 1
   \<and> dutch_month_to_number (StrV ''Smarch'') = Inl (ValueError ''Unknown Dutch month name: Smarch'')
   \<and> dutch_month_to_number (StrV ([CHR 0xC2, CHR 0xA0] @ ''jan'')) = Inr 1
   \<and> dutch_month_to_number
        (StrV (''o'' @ [CHR 0xE2, CHR 0x84, CHR 0xAA] @ ''t'' @ [CHR 0xE3, CHR 0x80, CHR 0x80]))
       = Inr 10"
proof -
  have a: "map_of DUTCH_MONTHS (strip (lower s)) = Some n \<longrightarrow>
      dutch_month_to_number (StrV s) = Inr n \<and> 1 \<le> n \<and> n \<le> 12"
    using DUTCH_MONTHS_range by (auto simp: dutch_month_to_number_Str)
  have b: "strip (lower s) \<notin> set full_month_names \<union> set month_abbreviations \<longrightarrow>
      dutch_month_to_number (StrV s) = Inl (ValueError (''Unknown Dutch month name: '' @ s))"
  proof
    assume "strip (lower s) \<notin> set full_month_names \<union> set month_abbreviations"
    then have "strip (lower s) \<notin> dom (map_of DUTCH_MONTHS)"
      using dom_DUTCH_MONTHS by blast
    then have "map_of DUTCH_MONTHS (strip (lower s)) = None" by blast
    then show "dutch_month_to_number (StrV s) = Inl (ValueError (''Unknown Dutch month name: '' @ s))"
      by (simp add: dutch_month_to_number_Str)
  qed
  have c: "(\<forall>t. v \<noteq> StrV t) \<longrightarrow>
      dutch_month_to_number v = Inl (ValueError (''Invalid month name: '' @ py_str v))"
    using dutch_month_to_number_not_Str by blast
  have d: "map (map_of DUTCH_MONTHS) full_month_names = map Some [1, 2, 3, 4, 5, 6, 7, 8, 9, 10, 11, 12]"
    by (simp add: DUTCH_MONTHS_def full_month_names_def)
  have e: "map (map_of DUTCH_MONTHS) month_abbreviations = map Some [1, 2, 3, 4, 5, 6, 7, 8, 9, 10, 11, 12]"
    by (simp add: DUTCH_MONTHS_def month_abbreviations_def)
  have f: "dutch_month_to_number (StrV ''januari'') = Inr 1"
    "dutch_month_to_number (StrV ''Jan'') = Inr 1"
    "dutch_month_to_number (StrV '' JANUARI '') = Inr 1"
    "dutch_month_to_number (StrV ''Smarch'') = Inl (ValueError ''Unknown Dutch month name: Smarch'')"
    by (simp_all add: dutch_month_to_number_Str strip_lower_examples DUTCH_MONTHS_def)
  have g: "dutch_month_to_number (StrV ([CHR 0xC2, CHR 0xA0] @ ''jan'')) = Inr 1"
    "dutch_month_to_number
        (StrV (''o'' @ [CHR 0xE2, CHR 0x84, CHR 0xAA] @ ''t'' @ [CHR 0xE3, CHR 0x80, CHR 0x80]))
       = Inr 10"
    by (simp_all only: dutch_month_to_number_Str strip_lower_examples)
      (simp_all add: DUTCH_MONTHS_def)
  from dom_DUTCH_MONTHS a b c d e f g show ?thesis by blast
qed

theorem month_to_number_vocabulary_witness:
  "map_of DUTCH_MONTHS (strip (lower ''  OKT '')) = Some 10
   \<and> dutch_month_to_number (StrV ''  OKT '') = Inr 10
   \<and> strip (lower ''Sept'') \<notin> set full_month_names \<union> set month_abbreviations
   \<and> dutch_month_to_number (StrV ''Sept'') = Inl (ValueError ''Unknown Dutch month name: Sept'')
   \<and> (\<forall>t. IntV 3 \<noteq> StrV t)
   \<and> dutch_month_to_number (IntV 3) = Inl (ValueError ''Invalid month name: 3'')
   \<and> dutch_month_to_number NaN = Inl (ValueError ''Invalid month name: nan'')"
proof -
  have s1: "strip (lower ''  OKT '') = ''okt''" and s2: "strip (lower ''Sept'') = ''sept''"
    by (simp_all add: string_eval)
  have h1: "map_of DUTCH_MONTHS (strip (lower ''  OKT '')) = Some 10"
    by (simp add: s1 DUTCH_MONTHS_def)
  have h2: "strip (lower ''Sept'') \<notin> set full_month_names \<union> set month_abbreviations"
    by (simp add: s2 full_month_names_def month_abbreviations_def)
  have h3: "\<forall>t. IntV 3 \<noteq> StrV t" and h4: "\<forall>t. NaN \<noteq> StrV t" by simp_all
  have p3: "py_str (IntV 3) = ''3''"
    by (simp add: py_str_def str_int_def str_nat.simps digit_char_def)
  have p4: "py_str NaN = ''nan''" by (simp add: py_str_def)
  from month_to_number_vocabulary [of "''  OKT ''" 10 "IntV 3"]
    month_to_number_vocabulary [of "''Sept''" 0 "NaN"] h1 h2 h3 h4 p3 p4
  show ?thesis by simp
qed

section \<open>Quarters\<close>

lemma dutch_month_to_number_range:
  "dutch_month_to_number v = Inr n \<Longrightarrow> 1 \<le> n \<and> n \<le> 12"
  by (cases v) (auto simp: dutch_month_to_number_def Let_def dest: DUTCH_MONTHS_range split: option.splits)

lemma str_int_digit: "0 \<le> q \<Longrightarrow> q < 10 \<Longrightarrow> str_int q = [digit_char (nat q)]"
  by (simp add: str_int_def str_nat.simps)

lemma str_int_four_digits:
  assumes "1000 \<le> y \<and> y \<le> 9999"
  shows "str_int y = four_digits y"
proof -
  let ?n = "nat y"
  from assms have n: "1000 \<le> ?n" "?n \<le> 9999" by linarith+
  then have m: "\<not> ?n < 10" "\<not> ?n div 10 < 10" "\<not> ?n div 100 < 10" "?n div 1000 < 10"
    by simp_all
  have e: "?n div 10 div 10 = ?n div 100" "?n div 100 div 10 = ?n div 1000"
    by (simp_all add: div_mult2_eq [symmetric])
  have a: "str_nat ?n = str_nat (?n div 10) @ [digit_char (?n mod 10)]"
    using m(1) by (simp add: str_nat.simps [of ?n])
  have b: "str_nat (?n div 10) = str_nat (?n div 100) @ [digit_char (?n div 10 mod 10)]"
    using m(2) e(1) by (simp add: str_nat.simps [of "?n div 10"])
  have c: "str_nat (?n div 100) = str_nat (?n div 1000) @ [digit_char (?n div 100 mod 10)]"
    using m(3) e(2) by (simp add: str_nat.simps [of "?n div 100"])
  have d: "str_nat (?n div 1000) = [digit_char (?n div 1000)]"
    using m(4) by (simp add: str_nat.simps [of "?n div 1000"])
  from assms have "str_int y = str_nat ?n" by (simp add: str_int_def)
  with a b c d show ?thesis by (simp add: four_digits_def)
qed

lemma month_cases:
  "1 \<le> m \<Longrightarrow> m \<le> 12 \<Longrightarrow> m \<in> {1, 2, 3, 4, 5, 6, 7, 8, 9, 10, 11, 12 :: int}"
  by simp arith

lemma str_int_numerals:
  "str_int 1 = ''1''" "str_int 2 = ''2''" "str_int 3 = ''3''" "str_int 4 = ''4''"
  "str_int 5 = ''5''" "str_int 6 = ''6''" "str_int 7 = ''7''" "str_int 8 = ''8''"
  "str_int 9 = ''9''" "str_int 10 = ''10''" "str_int 11 = ''11''" "str_int 12 = ''12''"
  by (simp_all add: str_int_def str_nat.simps digit_char_def)


lemma zfill_month:
  assumes "1 \<le> n" and "n \<le> 12"
  shows "zfill 2 (str_int n) = two_digits n"
proof -
  from assms have "n \<in> {1, 2, 3, 4, 5, 6, 7, 8, 9, 10, 11, 12}"
    by (rule month_cases)
  then show ?thesis
    by (auto simp: str_int_numerals zfill_def two_digits_def digit_char_def)
qed

lemma quarter_range: "1 \<le> n \<Longrightarrow> n \<le> 12 \<Longrightarrow> 1 \<le> (n - 1) div 3 + 1 \<and> (n - 1) div 3 + 1 \<le> (4::int)"
  by arith

text \<open>
  Claim C9, as amended. \<open>get_quarter_from_month\<close> takes a month label, not a month
  number. For a label that \<open>dutch_month_to_number\<close> accepts with month number \<open>n\<close> it
  returns \<open>Q\<close> followed by \<open>((n - 1) div 3) + 1\<close>, which is 1, 2, 3 or 4; for any other
  input it raises the error of \<open>dutch_month_to_number\<close>, and every value that is no
  string, every integer among them, is an invalid month name.
\<close>

theorem quarter_from_month_label:
  "(dutch_month_to_number v = Inr n \<longrightarrow>
      get_quarter_from_month v = Inr (''Q'' @ [digit_char (nat ((n - 1) div 3 + 1))])
      \<and> (n - 1) div 3 + 1 \<in> {1, 2, 3, 4})
   \<and> (dutch_month_to_number v = Inl e \<longrightarrow> get_quarter_from_month v = Inl e)
   \<and> ((\<forall>t. v \<noteq> StrV t) \<longrightarrow>
      get_quarter_from_month v = Inl (ValueError (''Invalid month name: '' @ py_str v)))"
proof (intro conjI impI)
  assume h: "dutch_month_to_number v = Inr n"
  then have r: "1 \<le> n \<and> n \<le> 12" by (rule dutch_month_to_number_range)
  then have q: "1 \<le> (n - 1) div 3 + 1 \<and> (n - 1) div 3 + 1 \<le> 4" by arith
  then show "(n - 1) div 3 + 1 \<in> {1, 2, 3, 4}" by auto
  from q have "str_int ((n - 1) div 3 + 1) = [digit_char (nat ((n - 1) div 3 + 1))]"
    by (intro str_int_digit) auto
  with h show "get_quarter_from_month v = Inr (''Q'' @ [digit_char (nat ((n - 1) div 3 + 1))])"
    by (simp add: get_quarter_from_month_def)
next
  assume "dutch_month_to_number v = Inl e"
  then show "get_quarter_from_month v = Inl e" by (simp add: get_quarter_from_month_def)
next
  assume "\<forall>t. v \<noteq> StrV t"
  then show "get_quarter_from_month v = Inl (ValueError (''Invalid month name: '' @ py_str v))"
    by (simp add: get_quarter_from_month_def dutch_month_to_number_not_Str)
qed

text \<open>
  The month number 3 is no input of \<open>get_quarter_from_month\<close>: the call raises
  instead of computing quarter 1.
\<close>

theorem quarter_of_month_number_counterexample:
  "get_quarter_from_month (IntV 3) = Inl (ValueError ''Invalid month name: 3'')"
  by (simp add: get_quarter_from_month_def dutch_month_to_number_def py_str_def str_int_numerals)

theorem quarter_from_month_label_witness:
  "dutch_month_to_number (StrV ''Maart'') = Inr 3
   \<and> get_quarter_from_month (StrV ''Maart'') = Inr ''Q1''
   \<and> dutch_month_to_number (StrV ''Smarch'') = Inl (ValueError ''Unknown Dutch month name: Smarch'')
   \<and> get_quarter_from_month (StrV ''Smarch'') = Inl (ValueError ''Unknown Dutch month name: Smarch'')
   \<and> (\<forall>t. IntV 13 \<noteq> StrV t)
   \<and> get_quarter_from_month (IntV 13) = Inl (ValueError ''Invalid month name: 13'')"
proof -
  have s: "strip (lower ''Maart'') = ''maart''" "strip (lower ''Smarch'') = ''smarch''"
    by (simp_all add: string_eval)
  have h1: "dutch_month_to_number (StrV ''Maart'') = Inr 3"
    and h2: "dutch_month_to_number (StrV ''Smarch'') = Inl (ValueError ''Unknown Dutch month name: Smarch'')"
    by (simp_all add: dutch_month_to_number_Str s DUTCH_MONTHS_def)
  have h3: "\<forall>t. IntV 13 \<noteq> StrV t" by simp
  have p: "py_str (IntV 13) = ''13''"
    by (simp add: py_str_def str_int_def str_nat.simps digit_char_def)
  from quarter_from_month_label [of "StrV ''Maart''" 3 "ValueError []"]
    quarter_from_month_label [of "StrV ''Smarch''" 0 "ValueError ''Unknown Dutch month name: Smarch''"]
    quarter_from_month_label [of "IntV 13" 0 "ValueError []"] h1 h2 h3 p
  show ?thesis by (simp add: digit_char_def)
qed


section \<open>Period keys\<close>

lemma apply_series_Inr:
  "apply_series f xs = Inr ys \<Longrightarrow>
   length ys = length xs \<and> (\<forall>i<length xs. f (xs ! i) = Inr (ys ! i))"
proof (induction xs arbitrary: ys)
  case Nil
  then show ?case by simp
next
  case (Cons x xs)
  from Cons.prems obtain y ys' where y: "f x = Inr y" and ys': "apply_series f xs = Inr ys'"
    and e: "ys = y # ys'"
    by (auto split: sum.splits)
  from Cons.IH [OF ys'] y e show ?case
    by (auto simp: nth_Cons split: nat.splits)
qed

lemma apply_series_all_Inr:
  "(\<forall>x\<in>set xs. \<exists>y. f x = Inr y) \<Longrightarrow> \<exists>ys. apply_series f xs = Inr ys"
  by (induction xs) (auto split: sum.splits)

lemma apply_series_Inl:
  "apply_series f xs = Inl e \<Longrightarrow>
   \<exists>i<length xs. f (xs ! i) = Inl e \<and> (\<forall>j<i. \<exists>y. f (xs ! j) = Inr y)"
proof (induction xs)
  case Nil
  then show ?case by simp
next
  case (Cons x xs)
  show ?case
  proof (cases "f x")
    case (Inl e')
    with Cons.prems have "e' = e" by simp
    with Inl have "f ((x # xs) ! 0) = Inl e \<and> (\<forall>j<0. \<exists>y. f ((x # xs) ! j) = Inr y)" by simp
    then show ?thesis by blast
  next
    case (Inr y)
    with Cons.prems have "apply_series f xs = Inl e" by (simp split: sum.splits)
    from Cons.IH [OF this] obtain i where i: "i < length xs" "f (xs ! i) = Inl e"
      "\<forall>j<i. \<exists>y. f (xs ! j) = Inr y" by blast
    have "\<forall>j<Suc i. \<exists>y. f ((x # xs) ! j) = Inr y"
      using Inr i(3) by (auto simp: nth_Cons split: nat.splits)
    with i show ?thesis by (intro exI [of _ "Suc i"]) simp
  qed
qed

lemma apply_series_first_failure:
  "i < length xs \<Longrightarrow> f (xs ! i) = Inl e \<Longrightarrow> (\<forall>j<i. \<exists>y. f (xs ! j) = Inr y) \<Longrightarrow>
   apply_series f xs = Inl e"
proof (induction xs arbitrary: i)
  case Nil
  then show ?case by simp
next
  case (Cons x xs)
  show ?case
  proof (cases i)
    case 0
    with Cons.prems show ?thesis by simp
  next
    case (Suc k)
    with Cons.prems have k: "k < length xs" "f (xs ! k) = Inl e" by simp_all
    from Cons.prems(3) Suc have "\<forall>j<k. \<exists>y. f (xs ! j) = Inr y"
      by (metis Suc_less_eq nth_Cons_Suc)
    from Cons.IH [OF k this] have t: "apply_series f xs = Inl e" .
    from Cons.prems(3) Suc obtain y where "f x = Inr y"
      by (metis nth_Cons_0 zero_less_Suc)
    with t show ?thesis by simp
  qed
qed

text \<open>
  Claim C4, as amended. For a table whose years are integers and whose month labels are
  all valid, the month period of a row is the decimal text of the year, a hyphen and the
  month number in two digits, and its quarter period is the decimal text of the year,
  \<open>-Q\<close> and the digit of \<open>((month - 1) div 3) + 1\<close>, a quarter from 1 to 4. The year
  part is \<open>str(year)\<close>, not padded: it has the four digits of \<open>YYYY\<close> exactly when the
  year is between 1000 and 9999. Both keys come from the same month number, so two rows of
  one year with the same month period have the same quarter period. The year 2023 with
  the label \<open>Maart\<close> gives \<open>2023-03\<close> and \<open>2023-Q1\<close>.
\<close>

theorem period_keys:
  assumes "getitem df year_col = Inr (map IntV ys)" and "getitem df month_col = Inr months"
    and "length ys = length months"
    and "apply_series dutch_month_to_number months = Inr month_numbers"
  shows "\<exists>periode kwartaal_keys.
      create_period_column df year_col month_col ''month'' = Inr periode
    \<and> create_period_column df year_col month_col ''quarter'' = Inr kwartaal_keys
    \<and> length periode = length months \<and> length kwartaal_keys = length months
    \<and> (\<forall>i<length months. \<exists>n.
          dutch_month_to_number (months ! i) = Inr n \<and> 1 \<le> n \<and> n \<le> 12
        \<and> (n - 1) div 3 + 1 \<in> {1, 2, 3, 4}
        \<and> periode ! i = StrV (str_int (ys ! i) @ ''-'' @ two_digits n)
        \<and> kwartaal_keys ! i
            = StrV (str_int (ys ! i) @ ''-Q'' @ [digit_char (nat ((n - 1) div 3 + 1))])
        \<and> (1000 \<le> ys ! i \<and> ys ! i \<le> 9999 \<longrightarrow> str_int (ys ! i) = four_digits (ys ! i)))
    \<and> (\<forall>i<length months. \<forall>j<length months.
          ys ! i = ys ! j \<longrightarrow> periode ! i = periode ! j \<longrightarrow> kwartaal_keys ! i = kwartaal_keys ! j)"
proof -
  let ?years = "map IntV ys"
  let ?ps = "map2 (\<lambda>y m. StrV (astype_str y @ ''-'' @ zfill 2 (str_int m))) ?years month_numbers"
  let ?qs = "map2 (\<lambda>y q. StrV (astype_str y @ ''-Q'' @ str_int q)) ?years
      (map (\<lambda>m. (m - 1) div 3 + 1) month_numbers)"
  from apply_series_Inr [OF assms(4)]
  have len: "length month_numbers = length months"
    and nth: "\<And>i. i < length months \<Longrightarrow> dutch_month_to_number (months ! i) = Inr (month_numbers ! i)"
    by simp_all
  have rng: "\<And>i. i < length months \<Longrightarrow> 1 \<le> month_numbers ! i \<and> month_numbers ! i \<le> 12"
    using nth dutch_month_to_number_range by blast
  have p: "create_period_column df year_col month_col ''month'' = Inr ?ps"
    using assms by (simp add: create_period_column_def)
  have q: "create_period_column df year_col month_col ''quarter'' = Inr ?qs"
    using assms by (simp add: create_period_column_def)
  have lp: "length ?ps = length months" and lq: "length ?qs = length months"
    using len assms(3) by simp_all
  have pi: "?ps ! i = StrV (str_int (ys ! i) @ ''-'' @ zfill 2 (str_int (month_numbers ! i)))"
    and qi: "?qs ! i = StrV (str_int (ys ! i) @ ''-Q'' @ str_int ((month_numbers ! i - 1) div 3 + 1))"
    if i: "i < length months" for i
    using i len assms(3) by (simp_all add: astype_str_def)
  have row: "\<exists>n. dutch_month_to_number (months ! i) = Inr n \<and> 1 \<le> n \<and> n \<le> 12
        \<and> (n - 1) div 3 + 1 \<in> {1, 2, 3, 4}
        \<and> ?ps ! i = StrV (str_int (ys ! i) @ ''-'' @ two_digits n)
        \<and> ?qs ! i = StrV (str_int (ys ! i) @ ''-Q'' @ [digit_char (nat ((n - 1) div 3 + 1))])
        \<and> (1000 \<le> ys ! i \<and> ys ! i \<le> 9999 \<longrightarrow> str_int (ys ! i) = four_digits (ys ! i))"
    if i: "i < length months" for i
  proof -
    let ?n = "month_numbers ! i"
    from rng [OF i] have r: "1 \<le> ?n" "?n \<le> 12" by simp_all
    then have qr: "1 \<le> (?n - 1) div 3 + 1 \<and> (?n - 1) div 3 + 1 \<le> 4" by arith
    then have qm: "(?n - 1) div 3 + 1 \<in> {1, 2, 3, 4}" by auto
    have a: "?ps ! i = StrV (str_int (ys ! i) @ ''-'' @ two_digits ?n)"
      using pi [OF i] zfill_month [OF r] by simp
    have "str_int ((?n - 1) div 3 + 1) = [digit_char (nat ((?n - 1) div 3 + 1))]"
      using qr by (intro str_int_digit) auto
    then have b: "?qs ! i = StrV (str_int (ys ! i) @ ''-Q'' @ [digit_char (nat ((?n - 1) div 3 + 1))])"
      using qi [OF i] by simp
    have c: "1000 \<le> ys ! i \<and> ys ! i \<le> 9999 \<longrightarrow> str_int (ys ! i) = four_digits (ys ! i)"
      using str_int_four_digits by blast
    from nth [OF i] r qm a b c show ?thesis by blast
  qed
  have agree: "?qs ! i = ?qs ! j"
    if i: "i < length months" and j: "j < length months" and y: "ys ! i = ys ! j"
      and e: "?ps ! i = ?ps ! j" for i j
  proof -
    from e pi [OF i] pi [OF j] y
    have "zfill 2 (str_int (month_numbers ! i)) = zfill 2 (str_int (month_numbers ! j))"
      by simp
    then have t: "two_digits (month_numbers ! i) = two_digits (month_numbers ! j)"
      using rng [OF i] rng [OF j] by (simp add: zfill_month)
    have "month_numbers ! i = month_numbers ! j"
      using month_cases [of "month_numbers ! i"] month_cases [of "month_numbers ! j"]
        rng [OF i] rng [OF j] t
      by (auto simp: two_digits_def digit_char_def)
    then show ?thesis using qi [OF i] qi [OF j] y by simp
  qed
  have rows: "\<forall>i<length months. \<exists>n.
          dutch_month_to_number (months ! i) = Inr n \<and> 1 \<le> n \<and> n \<le> 12
        \<and> (n - 1) div 3 + 1 \<in> {1, 2, 3, 4}
        \<and> ?ps ! i = StrV (str_int (ys ! i) @ ''-'' @ two_digits n)
        \<and> ?qs ! i = StrV (str_int (ys ! i) @ ''-Q'' @ [digit_char (nat ((n - 1) div 3 + 1))])
        \<and> (1000 \<le> ys ! i \<and> ys ! i \<le> 9999 \<longrightarrow> str_int (ys ! i) = four_digits (ys ! i))"
    by (intro allI impI) (rule row)
  have agr: "\<forall>i<length months. \<forall>j<length months.
      ys ! i = ys ! j \<longrightarrow> ?ps ! i = ?ps ! j \<longrightarrow> ?qs ! i = ?qs ! j"
    by (intro allI impI) (rule agree)
  show ?thesis
    by (rule exI [where x = ?ps], rule exI [where x = ?qs]) (intro conjI p q lp lq rows agr)
qed

theorem period_keys_witness:
  "getitem \<lparr>df_index = [0], df_columns = [(''jaar'', [IntV 2023]), (''maand'', [StrV ''Maart''])]\<rparr>
     ''jaar'' = Inr [IntV 2023]
   \<and> apply_series dutch_month_to_number [StrV ''Maart''] = Inr [3]
   \<and> create_period_column
        \<lparr>df_index = [0], df_columns = [(''jaar'', [IntV 2023]), (''maand'', [StrV ''Maart''])]\<rparr>
        ''jaar'' ''maand'' ''month'' = Inr [StrV ''2023-03'']
   \<and> create_period_column
        \<lparr>df_index = [0], df_columns = [(''jaar'', [IntV 2023]), (''maand'', [StrV ''Maart''])]\<rparr>
        ''jaar'' ''maand'' ''quarter'' = Inr [StrV ''2023-Q1'']"
proof -
  let ?df = "\<lparr>df_index = [0], df_columns = [(''jaar'', [IntV 2023]), (''maand'', [StrV ''Maart''])]\<rparr>"
  have s: "strip (lower ''Maart'') = ''maart''"
    by (simp add: string_eval)
  have m: "dutch_month_to_number (StrV ''Maart'') = Inr 3"
    by (simp add: dutch_month_to_number_Str s DUTCH_MONTHS_def)
  have h1: "getitem ?df ''jaar'' = Inr (map IntV [2023])"
    and h2: "getitem ?df ''maand'' = Inr [StrV ''Maart'']"
    by (simp_all add: getitem_def)
  have h3: "length [2023::int] = length [StrV ''Maart'']" by simp
  have h4: "apply_series dutch_month_to_number [StrV ''Maart''] = Inr [3]"
    by (simp add: m)
  have y: "four_digits 2023 = ''2023''"
    by (simp add: four_digits_def digit_char_def)
  from period_keys [OF h1 h2 h3 h4] obtain periode kwartaal_keys where
    all: "create_period_column ?df ''jaar'' ''maand'' ''month'' = Inr periode
    \<and> create_period_column ?df ''jaar'' ''maand'' ''quarter'' = Inr kwartaal_keys
    \<and> length periode = length [StrV ''Maart''] \<and> length kwartaal_keys = length [StrV ''Maart'']
    \<and> (\<forall>i<length [StrV ''Maart'']. \<exists>n.
          dutch_month_to_number ([StrV ''Maart''] ! i) = Inr n \<and> 1 \<le> n \<and> n \<le> 12
        \<and> (n - 1) div 3 + 1 \<in> {1, 2, 3, 4}
        \<and> periode ! i = StrV (str_int ([2023] ! i) @ ''-'' @ two_digits n)
        \<and> kwartaal_keys ! i
            = StrV (str_int ([2023] ! i) @ ''-Q'' @ [digit_char (nat ((n - 1) div 3 + 1))])
        \<and> (1000 \<le> [2023::int] ! i \<and> [2023::int] ! i \<le> 9999
             \<longrightarrow> str_int ([2023] ! i) = four_digits ([2023] ! i)))
    \<and> (\<forall>i<length [StrV ''Maart'']. \<forall>j<length [StrV ''Maart''].
          [2023::int] ! i = [2023] ! j \<longrightarrow> periode ! i = periode ! j
            \<longrightarrow> kwartaal_keys ! i = kwartaal_keys ! j)"
    by (elim exE) (rule that)
  note p = all [THEN conjunct1]
    and q = all [THEN conjunct2, THEN conjunct1]
    and lp = all [THEN conjunct2, THEN conjunct2, THEN conjunct1]
    and lq = all [THEN conjunct2, THEN conjunct2, THEN conjunct2, THEN conjunct1]
    and rows = all [THEN conjunct2, THEN conjunct2, THEN conjunct2, THEN conjunct2, THEN conjunct1]
  from rows have "\<exists>n.
          dutch_month_to_number ([StrV ''Maart''] ! 0) = Inr n \<and> 1 \<le> n \<and> n \<le> 12
        \<and> (n - 1) div 3 + 1 \<in> {1, 2, 3, 4}
        \<and> periode ! 0 = StrV (str_int ([2023] ! 0) @ ''-'' @ two_digits n)
        \<and> kwartaal_keys ! 0
            = StrV (str_int ([2023] ! 0) @ ''-Q'' @ [digit_char (nat ((n - 1) div 3 + 1))])
        \<and> (1000 \<le> [2023::int] ! 0 \<and> [2023::int] ! 0 \<le> 9999
             \<longrightarrow> str_int ([2023] ! 0) = four_digits ([2023] ! 0))"
    by (rule allE [where x = 0]) simp
  then obtain n where n: "dutch_month_to_number (StrV ''Maart'') = Inr n"
    and pn: "periode ! 0 = StrV (str_int 2023 @ ''-'' @ two_digits n)"
    and qn: "kwartaal_keys ! 0 = StrV (str_int 2023 @ ''-Q'' @ [digit_char (nat ((n - 1) div 3 + 1))])"
    and yn: "str_int 2023 = four_digits 2023"
    by auto
  from n m have n3: "n = 3" by simp
  from pn qn n3 y yn have "periode ! 0 = StrV ''2023-03''" and "kwartaal_keys ! 0 = StrV ''2023-Q1''"
    by (simp_all add: two_digits_def digit_char_def)
  moreover from lp have "periode = [periode ! 0]"
    by (cases periode) simp_all
  moreover from lq have "kwartaal_keys = [kwartaal_keys ! 0]"
    by (cases kwartaal_keys) simp_all
  ultimately have "periode = [StrV ''2023-03'']" and "kwartaal_keys = [StrV ''2023-Q1'']"
    by simp_all
  with p q h1 h4 show ?thesis by simp
qed

text \<open>
  The claim as stated gives every key the shape \<open>YYYY-MM\<close> or \<open>YYYY-QN\<close>. The year is
  not padded to four digits: the year 5 with the label \<open>December\<close> gives the keys \<open>5-12\<close>
  and \<open>5-Q4\<close>, and the year 12345 with the label \<open>Mei\<close> gives \<open>12345-05\<close>.
\<close>

theorem period_key_year_digits_counterexample:
  "create_period_column
      \<lparr>df_index = [0, 1],
       df_columns = [(''jaar'', [IntV 5, IntV 12345]), (''maand'', [StrV ''December'', StrV ''Mei''])]\<rparr>
      ''jaar'' ''maand'' ''month'' = Inr [StrV ''5-12'', StrV ''12345-05'']
   \<and> create_period_column
      \<lparr>df_index = [0, 1],
       df_columns = [(''jaar'', [IntV 5, IntV 12345]), (''maand'', [StrV ''December'', StrV ''Mei''])]\<rparr>
      ''jaar'' ''maand'' ''quarter'' = Inr [StrV ''5-Q4'', StrV ''12345-Q2'']"
proof -
  have s: "strip (lower ''December'') = ''december''" "strip (lower ''Mei'') = ''mei''"
    by (simp_all add: string_eval)
  have m: "dutch_month_to_number (StrV ''December'') = Inr 12"
    "dutch_month_to_number (StrV ''Mei'') = Inr 5"
    by (simp_all add: dutch_month_to_number_Str s DUTCH_MONTHS_def)
  have y: "str_int 5 = ''5''" "str_int 12345 = ''12345''" "str_int 4 = ''4''" "str_int 2 = ''2''"
    "str_int 12 = ''12''"
    by (simp_all add: str_int_def str_nat.simps digit_char_def)
  show ?thesis
    by (simp add: create_period_column_def getitem_def m y astype_str_def zfill_def)
qed

section \<open>The rolling average\<close>

lemma foldl_add_mean: "foldl add_mean st xs = (fst st + sum_list xs, snd st + length xs)"
  by (induction xs arbitrary: st) (simp_all add: add_mean_def)

lemma foldl_remove_mean: "foldl remove_mean st xs = (fst st - sum_list xs, snd st - length xs)"
  by (induction xs arbitrary: st) (simp_all add: remove_mean_def)

lemma slice_append: "a \<le> b \<Longrightarrow> b \<le> c \<Longrightarrow> slice xs a c = slice xs a b @ slice xs b c"
proof -
  assume ab: "a \<le> b" and bc: "b \<le> c"
  then have "c - a = (b - a) + (c - b)" by simp
  then have "take (c - a) (drop a xs) = take (b - a) (drop a xs) @ take (c - b) (drop (b - a) (drop a xs))"
    by (simp only: take_add)
  with ab show ?thesis by (simp add: slice_def)
qed

lemma slice_nth: "b \<le> length xs \<Longrightarrow> slice xs a b = map (\<lambda>j. xs ! j) [a..<b]"
  by (rule nth_equalityI) (auto simp: slice_def)

lemma length_slice: "b \<le> length xs \<Longrightarrow> length (slice xs a b) = b - a"
  by (simp add: slice_def)


lemma window_start_mono: "window_start window i \<le> window_start window (Suc i)"
  by (simp add: window_start_def)

lemma window_start_le: "window_start window i \<le> window_end i"
  by (simp add: window_start_def window_end_def)

lemma roll_step:
  assumes "0 < i \<longrightarrow> st = window_state window vals (i - 1)"
  shows "(if i = 0 \<or> window_end (i - 1) \<le> window_start window i
          then foldl add_mean (0, 0) (slice vals (window_start window i) (window_end i))
          else foldl add_mean
                 (foldl remove_mean st (slice vals (window_start window (i - 1)) (window_start window i)))
                 (slice vals (window_end (i - 1)) (window_end i)))
         = window_state window vals i"
proof (cases "i = 0 \<or> window_end (i - 1) \<le> window_start window i")
  case True
  then show ?thesis by (simp add: foldl_add_mean window_state_def)
next
  case False
  then obtain k where k: "i = Suc k" by (cases i) auto
  let ?lo = "window_start window k" and ?hi = "window_start window (Suc k)"
  from False k have lt: "?hi < Suc k" by (simp add: window_end_def)
  have le: "?lo \<le> ?hi" by (rule window_start_mono)
  from assms k have st: "st = window_state window vals k" by simp
  have old: "slice vals ?lo (Suc k) = slice vals ?lo ?hi @ slice vals ?hi (Suc k)"
    using slice_append [OF le, of "Suc k" vals] lt by simp
  have new: "slice vals ?hi (Suc (Suc k)) = slice vals ?hi (Suc k) @ slice vals (Suc k) (Suc (Suc k))"
    using slice_append [of "?hi" "Suc k" "Suc (Suc k)" vals] lt by simp
  show ?thesis
    using False k st old new
    by (simp add: foldl_add_mean foldl_remove_mean window_state_def window_end_def)
qed

lemma roll_mean_loop_eq:
  "(0 < i \<longrightarrow> st = window_state window vals (i - 1)) \<Longrightarrow>
   roll_mean_loop window minp vals remaining i st
     = map (\<lambda>j. calc_mean minp (window_state window vals j)) [i..<i + remaining]"
proof (induction remaining arbitrary: i st)
  case 0
  then show ?case by simp
next
  case (Suc remaining)
  let ?st' = "window_state window vals i"
  have step: "(if i = 0 \<or> window_end (i - 1) \<le> window_start window i
          then foldl add_mean (0, 0) (slice vals (window_start window i) (window_end i))
          else foldl add_mean
                 (foldl remove_mean st (slice vals (window_start window (i - 1)) (window_start window i)))
                 (slice vals (window_end (i - 1)) (window_end i))) = ?st'"
    using Suc.prems by (rule roll_step)
  have a: "roll_mean_loop window minp vals (Suc remaining) i st
      = calc_mean minp ?st' # roll_mean_loop window minp vals remaining (i + 1) ?st'"
    by (simp only: roll_mean_loop.simps Let_def step)
  have b: "roll_mean_loop window minp vals remaining (i + 1) ?st'
      = map (\<lambda>j. calc_mean minp (window_state window vals j)) [i + 1..<i + 1 + remaining]"
    by (rule Suc.IH) simp
  have c: "[i..<i + Suc remaining] = i # [i + 1..<i + 1 + remaining]"
    by (simp add: upt_conv_Cons)
  show ?case by (simp only: a b c list.map)
qed

lemma rolling_mean_eq:
  "rolling_mean window minp vals
     = map (\<lambda>j. calc_mean minp (window_state window vals j)) [0..<length vals]"
  by (simp add: rolling_mean_def roll_mean_loop_eq)

lemma window_state_trailing:
  assumes "i < length vals"
  shows "window_state window vals i
     = (sum_list (trailing_window window vals i), length (trailing_window window vals i))"
proof -
  have "window_start window i = nat (max 0 (int i - int window + 1))"
    by (simp add: window_start_def algebra_simps)
  moreover have "slice vals (window_start window i) (Suc i)
      = map (\<lambda>j. vals ! j) [window_start window i..<Suc i]"
    using assms by (intro slice_nth) simp
  ultimately show ?thesis
    by (simp add: window_state_def trailing_window_def window_end_def)
qed

lemma trailing_window_nonempty: "0 < window \<Longrightarrow> 0 < length (trailing_window window vals i)"
  by (simp add: trailing_window_def)

lemma rolling_mean_nth:
  assumes "i < length vals" and "0 < window"
  shows "rolling_mean window 1 vals ! i = Some (arithmetic_mean (trailing_window window vals i))"
proof -
  have "rolling_mean window 1 vals ! i = calc_mean 1 (window_state window vals i)"
    using assms(1) by (simp add: rolling_mean_eq)
  also have "\<dots> = Some (arithmetic_mean (trailing_window window vals i))"
    using trailing_window_nonempty [OF assms(2), of vals i]
    by (simp add: window_state_trailing [OF assms(1)] calc_mean_def arithmetic_mean_def Suc_le_eq)
  finally show ?thesis .
qed


lemma trailing_window_first:
  assumes "12 \<le> length vals"
  shows "trailing_window 12 vals 11 = take 12 vals"
proof -
  have "take 12 vals = map (\<lambda>j. vals ! j) [0..<12]"
    using assms by (intro nth_equalityI) auto
  then show ?thesis by (simp add: trailing_window_def)
qed

text \<open>
  Claim C1. The rolling mean with window 12 and at least one observation has one value
  for each position of the input, and the value at position \<open>i\<close> is the arithmetic mean
  of the values at the positions \<open>max(0, i - 11)\<close> to \<open>i\<close>. For a single value it is
  that value, and for an input of at least 12 values the value at position 11 is the
  mean of the first 12. The three curves of the chart are this rolling mean of the three
  monthly sums, and they have one point for each date of the chart.
\<close>

theorem rolling_average_window:
  "length (rolling_mean 12 1 vals) = length vals
   \<and> (\<forall>i<length vals.
        rolling_mean 12 1 vals ! i = Some (arithmetic_mean (trailing_window 12 vals i)))
   \<and> rolling_mean 12 1 [v] = [Some (of_int v)]
   \<and> (12 \<le> length vals \<longrightarrow>
        rolling_mean 12 1 vals ! 11 = Some (arithmetic_mean (take 12 vals)))
   \<and> (create_rolling_average_chart to_datetime region_data = Inr chart \<longrightarrow>
        (\<exists>monthly_data.
           monthly_series to_datetime region_data = Inr monthly_data
         \<and> chart_datum chart = map fst monthly_data
         \<and> rolling_alle_woningen chart
             = rolling_mean 12 1 (map (\<lambda>(d, r, n). mo_alle_woningen r) monthly_data)
         \<and> rolling_aantal_huizen chart
             = rolling_mean 12 1 (map (\<lambda>(d, r, n). mo_aantal_huizen r) monthly_data)
         \<and> rolling_aantal_flats chart
             = rolling_mean 12 1 (map (\<lambda>(d, r, n). mo_aantal_flats r) monthly_data))
      \<and> length (rolling_alle_woningen chart) = length (chart_datum chart)
      \<and> length (rolling_aantal_huizen chart) = length (chart_datum chart)
      \<and> length (rolling_aantal_flats chart) = length (chart_datum chart))"
proof -
  have len: "length (rolling_mean 12 1 xs) = length xs" for xs
    by (simp add: rolling_mean_eq)
  have nth: "\<forall>i<length vals.
      rolling_mean 12 1 vals ! i = Some (arithmetic_mean (trailing_window 12 vals i))"
  proof (intro allI impI)
    fix i assume "i < length vals"
    then show "rolling_mean 12 1 vals ! i = Some (arithmetic_mean (trailing_window 12 vals i))"
      by (rule rolling_mean_nth) simp
  qed
  have one: "rolling_mean 12 1 [v] = [Some (of_int v)]"
  proof -
    have "rolling_mean 12 1 [v] ! 0 = Some (arithmetic_mean (trailing_window 12 [v] 0))"
      by (rule rolling_mean_nth) simp_all
    moreover have "arithmetic_mean (trailing_window 12 [v] 0) = of_int v"
      by (simp add: arithmetic_mean_def trailing_window_def)
    moreover have "length (rolling_mean 12 1 [v]) = 1"
      using len [of "[v]"] by simp
    ultimately show ?thesis
      by (cases "rolling_mean 12 1 [v]") simp_all
  qed
  have first: "12 \<le> length vals \<longrightarrow>
      rolling_mean 12 1 vals ! 11 = Some (arithmetic_mean (take 12 vals))"
  proof
    assume l: "12 \<le> length vals"
    then have "rolling_mean 12 1 vals ! 11 = Some (arithmetic_mean (trailing_window 12 vals 11))"
      by (intro rolling_mean_nth) simp_all
    with l show "rolling_mean 12 1 vals ! 11 = Some (arithmetic_mean (take 12 vals))"
      by (simp add: trailing_window_first)
  qed
  have chart: "create_rolling_average_chart to_datetime region_data = Inr chart \<longrightarrow>
        (\<exists>monthly_data.
           monthly_series to_datetime region_data = Inr monthly_data
         \<and> chart_datum chart = map fst monthly_data
         \<and> rolling_alle_woningen chart
             = rolling_mean 12 1 (map (\<lambda>(d, r, n). mo_alle_woningen r) monthly_data)
         \<and> rolling_aantal_huizen chart
             = rolling_mean 12 1 (map (\<lambda>(d, r, n). mo_aantal_huizen r) monthly_data)
         \<and> rolling_aantal_flats chart
             = rolling_mean 12 1 (map (\<lambda>(d, r, n). mo_aantal_flats r) monthly_data))
      \<and> length (rolling_alle_woningen chart) = length (chart_datum chart)
      \<and> length (rolling_aantal_huizen chart) = length (chart_datum chart)
      \<and> length (rolling_aantal_flats chart) = length (chart_datum chart)"
    using len by (auto simp: create_rolling_average_chart_def split: sum.splits)
  from len [of vals] nth one first chart show ?thesis by blast
qed


theorem rolling_average_window_witness:
  "(12::nat) \<le> length [100, 110, 120, 130, 140, 150, 160, 170, 180, 190, 200, 210, 220 :: int]
   \<and> rolling_mean 12 1 [100, 110, 120, 130, 140, 150, 160, 170, 180, 190, 200, 210, 220] ! 11
       = Some 155
   \<and> rolling_mean 12 1 [100, 110, 120, 130, 140, 150, 160, 170, 180, 190, 200, 210, 220] ! 12
       = Some 165
   \<and> rolling_mean 12 1 [100, 110, 120, 130, 140, 150, 160, 170, 180, 190, 200, 210, 220] ! 1
       = Some 105
   \<and> create_rolling_average_chart sample_to_datetime sample_region
       = Inr \<lparr>chart_datum = [(2023, 1, 1), (2023, 2, 1)],
              rolling_aantal_huizen = [Some 60, Some 65],
              rolling_aantal_flats = [Some 40, Some 40],
              rolling_alle_woningen = [Some 100, Some 105]\<rparr>
   \<and> length [Some 100, Some 105 :: rat option] = length [(2023, 1, 1), (2023, 2, 1) :: date]"
proof -
  let ?vals = "[100, 110, 120, 130, 140, 150, 160, 170, 180, 190, 200, 210, 220] :: int list"
  let ?chart = "\<lparr>chart_datum = [(2023, 1, 1), (2023, 2, 1)],
              rolling_aantal_huizen = [Some 60, Some 65],
              rolling_aantal_flats = [Some 40, Some 40],
              rolling_alle_woningen = [Some 100, Some 105]\<rparr>"
  have h: "12 \<le> length ?vals" by simp
  have c: "create_rolling_average_chart sample_to_datetime sample_region = Inr ?chart"
    by code_simp
  have t: "trailing_window 12 ?vals 12 = [110, 120, 130, 140, 150, 160, 170, 180, 190, 200, 210, 220]"
    "trailing_window 12 ?vals 1 = [100, 110]"
    by (simp_all add: trailing_window_def upt_rec)
  have m: "arithmetic_mean (take 12 ?vals) = 155"
    "arithmetic_mean [110, 120, 130, 140, 150, 160, 170, 180, 190, 200, 210, 220] = 165"
    "arithmetic_mean [100, 110] = 105"
    by (simp_all add: arithmetic_mean_def)
  from rolling_average_window [of ?vals 0 sample_to_datetime sample_region ?chart] h c t m
  show ?thesis by simp
qed



section \<open>Month recognition of the rolling average chart\<close>

lemma dom_month_mapping: "dom (map_of month_mapping) = set capitalized_month_names"
  by (auto simp: dom_map_of_conv_image_fst month_mapping_def capitalized_month_names_def)

lemma month_mapping_None:
  "map_of month_mapping l = None \<longleftrightarrow> l \<notin> set capitalized_month_names"
  using dom_month_mapping by (auto simp: domIff)

lemma monthly_mapped_rows:
  "map fst (monthly_mapped monthly_data)
     = filter (\<lambda>r. mo_maand r \<in> set capitalized_month_names) monthly_data"
proof (induction monthly_data)
  case Nil
  then show ?case by (simp add: monthly_mapped_def)
next
  case (Cons r rs)
  show ?case
  proof (cases "map_of month_mapping (mo_maand r)")
    case None
    then have "mo_maand r \<notin> set capitalized_month_names" by (simp add: month_mapping_None)
    with None Cons.IH show ?thesis
      by (simp add: monthly_mapped_def)
  next
    case (Some n)
    then have "mo_maand r \<in> set capitalized_month_names"
      using month_mapping_None [of "mo_maand r"] by simp
    with Some Cons.IH show ?thesis
      by (simp add: monthly_mapped_def)
  qed
qed

lemma month_mapping_narrower:
  assumes "map_of month_mapping l = Some n"
  shows "dutch_month_to_number (StrV l) = Inr n"
proof -
  from assms have "(l, n) \<in> set month_mapping" by (rule map_of_SomeD)
  then have "(l, n) = (''Januari'', 1) \<or> (l, n) = (''Februari'', 2) \<or> (l, n) = (''Maart'', 3)
      \<or> (l, n) = (''April'', 4) \<or> (l, n) = (''Mei'', 5) \<or> (l, n) = (''Juni'', 6)
      \<or> (l, n) = (''Juli'', 7) \<or> (l, n) = (''Augustus'', 8) \<or> (l, n) = (''September'', 9)
      \<or> (l, n) = (''Oktober'', 10) \<or> (l, n) = (''November'', 11)
      \<or> (l, n) = (''December'', 12)"
    by (simp add: month_mapping_def)
  then show ?thesis
    by (elim disjE)
      (simp_all add: dutch_month_to_number_Str string_eval
        DUTCH_MONTHS_def)
qed

lemma monthly_series_rows:
  assumes "monthly_series to_datetime region_data = Inr series"
    and "\<forall>texts dates. to_datetime texts = Inr dates \<longrightarrow> length dates = length texts"
  shows "mset (map (\<lambda>(d, r, n). r) series)
     = mset (filter (\<lambda>r. mo_maand r \<in> set capitalized_month_names) (monthly_grouped region_data))"
proof -
  let ?md = "monthly_mapped (monthly_grouped region_data)"
  let ?texts = "map (\<lambda>(r, maand_nummer).
        str_int (mo_jaar r) @ ''-'' @ zfill 2 (str_int maand_nummer) @ ''-01'') ?md"
  from assms(1) obtain datum where d: "to_datetime ?texts = Inr datum"
    and s: "series = sort_key fst (zip datum ?md)"
    by (auto simp: monthly_series_def Let_def split: sum.splits)
  from d assms(2) have l: "length datum = length ?md" by fastforce
  have "mset (map (\<lambda>(d, r, n). r) series) = mset (map (\<lambda>(d, r, n). r) (zip datum ?md))"
    by (simp add: s)
  also have "map (\<lambda>(d, r, n). r) (zip datum ?md) = map fst (map snd (zip datum ?md))"
    by (simp add: case_prod_unfold)
  also have "map snd (zip datum ?md) = ?md" using l by simp
  finally show ?thesis by (simp add: monthly_mapped_rows)
qed

text \<open>
  Claim C10. The rolling average chart keeps a grouped row exactly when its raw month
  label is one of the twelve capitalized full month names: the rows after \<open>dropna\<close>
  are the grouped rows with such a label, in order, and when the dates are computed
  the series holds the same rows. Every label of this mapping is accepted by
  \<open>dutch_month_to_number\<close> with the same number, but \<open>jan\<close>, \<open>JANUARI\<close> and
  \<open> Januari \<close>, which \<open>dutch_month_to_number\<close> accepts, are no keys of the mapping.
  The grouped rows are those of the years from 2015 on.
\<close>

theorem rolling_month_recognition:
  "map fst (monthly_mapped monthly_data)
     = filter (\<lambda>r. mo_maand r \<in> set capitalized_month_names) monthly_data
   \<and> ((\<forall>texts dates. to_datetime texts = Inr dates \<longrightarrow> length dates = length texts) \<longrightarrow>
       monthly_series to_datetime region_data = Inr series \<longrightarrow>
       mset (map (\<lambda>(d, r, n). r) series)
         = mset (filter (\<lambda>r. mo_maand r \<in> set capitalized_month_names)
                   (monthly_grouped region_data)))
   \<and> (map_of month_mapping l = Some n \<longrightarrow> dutch_month_to_number (StrV l) = Inr n)
   \<and> dutch_month_to_number (StrV ''jan'') = Inr 1 \<and> map_of month_mapping ''jan'' = None
   \<and> dutch_month_to_number (StrV ''JANUARI'') = Inr 1 \<and> map_of month_mapping ''JANUARI'' = None
   \<and> dutch_month_to_number (StrV '' Januari '') = Inr 1
   \<and> map_of month_mapping '' Januari '' = None"
proof -
  have s: "strip (lower ''jan'') = ''jan''" "strip (lower ''JANUARI'') = ''januari''"
    "strip (lower '' Januari '') = ''januari''"
    by (simp_all add: string_eval)
  have a: "dutch_month_to_number (StrV ''jan'') = Inr 1"
    "dutch_month_to_number (StrV ''JANUARI'') = Inr 1"
    "dutch_month_to_number (StrV '' Januari '') = Inr 1"
    by (simp_all add: dutch_month_to_number_Str s DUTCH_MONTHS_def)
  have b: "map_of month_mapping ''jan'' = None" "map_of month_mapping ''JANUARI'' = None"
    "map_of month_mapping '' Januari '' = None"
    by (simp_all add: month_mapping_def)
  have c: "(\<forall>texts dates. to_datetime texts = Inr dates \<longrightarrow> length dates = length texts) \<longrightarrow>
       monthly_series to_datetime region_data = Inr series \<longrightarrow>
       mset (map (\<lambda>(d, r, n). r) series)
         = mset (filter (\<lambda>r. mo_maand r \<in> set capitalized_month_names)
                   (monthly_grouped region_data))"
    using monthly_series_rows [of to_datetime region_data series] by (intro impI)
  have d: "map_of month_mapping l = Some n \<longrightarrow> dutch_month_to_number (StrV l) = Inr n"
    using month_mapping_narrower [of l n] by (intro impI)
  show ?thesis
    by (intro conjI) (rule monthly_mapped_rows c d a b)+
qed


lemma sample_to_datetime_length:
  "\<forall>texts dates. sample_to_datetime texts = Inr dates \<longrightarrow> length dates = length texts"
  by (auto simp: sample_to_datetime_def dest: apply_series_Inr)

lemma sample_monthly_series:
  "monthly_series sample_to_datetime sample_region
     = Inr [((2023, 1, 1),
             \<lparr>mo_jaar = 2023, mo_maand = ''Januari'', mo_alle_woningen = 100,
                mo_aantal_huizen = 60, mo_aantal_flats = 40\<rparr>, 1),
            ((2023, 2, 1),
             \<lparr>mo_jaar = 2023, mo_maand = ''Februari'', mo_alle_woningen = 110,
                mo_aantal_huizen = 70, mo_aantal_flats = 40\<rparr>, 2)]"
  by code_simp

theorem rolling_month_recognition_witness:
  "monthly_series sample_to_datetime sample_region
     = Inr [((2023, 1, 1),
             \<lparr>mo_jaar = 2023, mo_maand = ''Januari'', mo_alle_woningen = 100,
                mo_aantal_huizen = 60, mo_aantal_flats = 40\<rparr>, 1),
            ((2023, 2, 1),
             \<lparr>mo_jaar = 2023, mo_maand = ''Februari'', mo_alle_woningen = 110,
                mo_aantal_huizen = 70, mo_aantal_flats = 40\<rparr>, 2)]
   \<and> mset [\<lparr>mo_jaar = 2023, mo_maand = ''Januari'', mo_alle_woningen = 100,
                mo_aantal_huizen = 60, mo_aantal_flats = 40\<rparr>,
            \<lparr>mo_jaar = 2023, mo_maand = ''Februari'', mo_alle_woningen = 110,
                mo_aantal_huizen = 70, mo_aantal_flats = 40\<rparr>]
       = mset (filter (\<lambda>r. mo_maand r \<in> set capitalized_month_names)
                 (monthly_grouped sample_region))
   \<and> map_of month_mapping ''Maart'' = Some 3
   \<and> dutch_month_to_number (StrV ''Maart'') = Inr 3"
proof -
  let ?jan = "\<lparr>mo_jaar = 2023, mo_maand = ''Januari'', mo_alle_woningen = 100,
                mo_aantal_huizen = 60, mo_aantal_flats = 40\<rparr>"
  let ?feb = "\<lparr>mo_jaar = 2023, mo_maand = ''Februari'', mo_alle_woningen = 110,
                mo_aantal_huizen = 70, mo_aantal_flats = 40\<rparr>"
  let ?series = "[((2023, 1, 1), ?jan, 1), ((2023, 2, 1), ?feb, 2)] :: (date \<times> monthly \<times> int) list"
  have m: "map_of month_mapping ''Maart'' = Some 3" by (simp add: month_mapping_def)
  note t = rolling_month_recognition [of "[]" sample_to_datetime sample_region ?series "''Maart''" 3]
  from t have "(\<forall>texts dates. sample_to_datetime texts = Inr dates \<longrightarrow> length dates = length texts) \<longrightarrow>
       monthly_series sample_to_datetime sample_region = Inr ?series \<longrightarrow>
       mset (map (\<lambda>(d, r, n). r) ?series)
         = mset (filter (\<lambda>r. mo_maand r \<in> set capitalized_month_names)
                   (monthly_grouped sample_region))"
    by (elim conjE)
  with sample_to_datetime_length sample_monthly_series
  have a: "mset (map (\<lambda>(d, r, n). r) ?series)
         = mset (filter (\<lambda>r. mo_maand r \<in> set capitalized_month_names)
                   (monthly_grouped sample_region))"
    by blast
  have b: "map (\<lambda>(d, r, n). r) ?series = [?jan, ?feb]" by simp
  from t m have c: "dutch_month_to_number (StrV ''Maart'') = Inr 3" by blast
  from a b have "mset [?jan, ?feb] = mset (filter (\<lambda>r. mo_maand r \<in> set capitalized_month_names)
                   (monthly_grouped sample_region))"
    by (simp only:)
  with sample_to_datetime_length sample_monthly_series m c show ?thesis by blast
qed


section \<open>Failures of the synthesizer\<close>

lemma add_date_column_unfold:
  "add_date_column to_datetime h r year_col month_col c day =
     (case create_date_from_columns to_datetime (h ! r) year_col month_col day of
        Inl e \<Rightarrow> (Inl e, h @ [h ! r])
      | Inr dates \<Rightarrow> (Inr (length h), h @ [setitem (h ! r) c dates]))"
  by (simp add: add_date_column_def copy_df_def alloc_def split: sum.splits)

lemma standardize_fst:
  "fst (standardize_date_columns to_datetime h r year_col month_col)
     = (case standardized to_datetime (h ! r) year_col month_col of
          Inl e \<Rightarrow> Inl e
        | Inr df' \<Rightarrow> Inr (Suc (length h)))"
  by (simp add: standardize_date_columns_def standardized_def copy_df_def alloc_def
      add_date_column_unfold Let_def nth_append split: sum.splits)


lemma standardize_snd_prefix:
  "\<exists>new. snd (standardize_date_columns to_datetime h r year_col month_col) = h @ new"
  by (auto simp: standardize_date_columns_def copy_df_def alloc_def
      add_date_column_unfold Let_def nth_append list_update_append split: sum.splits)









lemma getitem_present:
  "col \<in> set (column_names df) \<Longrightarrow> \<exists>vs. getitem df col = Inr vs"
  by (cases "map_of (df_columns df) col")
    (auto simp: getitem_def column_names_def map_of_eq_None_iff)

lemma getitem_Inr_present: "getitem df col = Inr vs \<Longrightarrow> col \<in> set (column_names df)"
  by (auto simp: getitem_def column_names_def split: option.splits dest!: map_of_SomeD
      intro: rev_image_eqI)



lemma create_date_missing_year:
  "year_col \<notin> set (column_names df) \<Longrightarrow>
   create_date_from_columns to_datetime df year_col month_col day
     = Inl (ValueError (''Year column '' @ quoted year_col @ '' not found in DataFrame''))"
  by (simp add: create_date_from_columns_def)

lemma create_date_missing_month:
  "year_col \<in> set (column_names df) \<Longrightarrow> month_col \<notin> set (column_names df) \<Longrightarrow>
   create_date_from_columns to_datetime df year_col month_col day
     = Inl (ValueError (''Month column '' @ quoted month_col @ '' not found in DataFrame''))"
  by (simp add: create_date_from_columns_def)

lemma create_date_first_failure:
  assumes "year_col \<in> set (column_names df)" and "getitem df month_col = Inr months"
    and "i < length months" and "dutch_month_to_number (months ! i) = Inl e"
    and "\<forall>j<i. \<exists>n. dutch_month_to_number (months ! j) = Inr n"
  shows "create_date_from_columns to_datetime df year_col month_col day = Inl e"
proof -
  have "apply_series dutch_month_to_number months = Inl e"
    using assms(3-5) by (rule apply_series_first_failure)
  moreover have "month_col \<in> set (column_names df)"
    using assms(2) by (rule getitem_Inr_present)
  ultimately show ?thesis
    using assms(1,2) by (simp add: create_date_from_columns_def)
qed

lemma standardized_create_date_Inl:
  "create_date_from_columns to_datetime df year_col month_col 1 = Inl e \<Longrightarrow>
   standardized to_datetime df year_col month_col = Inl e"
  by (simp add: standardized_def)

lemma standardize_unchanged:
  "q < length h \<Longrightarrow> snd (standardize_date_columns to_datetime h r year_col month_col) ! q = h ! q"
  using standardize_snd_prefix [of to_datetime h r year_col month_col]
  by (auto simp: nth_append)

text \<open>
  Claim C5, as amended. \<open>standardize_date_columns\<close> raises the "year column not found"
  error when the year column is absent and the "month column not found" error when only
  the month column is absent. When the month label of some row is rejected, the call
  raises the error of the first such row: the "unknown month" error with the label of
  that row when the label is a string, the "invalid month" error when it is no string.
  The error carries the label and nothing that names the row. Whatever the call does,
  no table of the store before the call is changed, and a failing call returns no table.
\<close>

theorem synthesizer_failure:
  "(year_col \<notin> set (column_names (h ! r)) \<longrightarrow>
      fst (standardize_date_columns to_datetime h r year_col month_col)
        = Inl (ValueError (''Year column '' @ quoted year_col @ '' not found in DataFrame'')))
   \<and> (year_col \<in> set (column_names (h ! r)) \<and> month_col \<notin> set (column_names (h ! r)) \<longrightarrow>
      fst (standardize_date_columns to_datetime h r year_col month_col)
        = Inl (ValueError (''Month column '' @ quoted month_col @ '' not found in DataFrame'')))
   \<and> (year_col \<in> set (column_names (h ! r)) \<and> getitem (h ! r) month_col = Inr months
        \<and> i < length months \<and> dutch_month_to_number (months ! i) = Inl e
        \<and> (\<forall>j<i. \<exists>n. dutch_month_to_number (months ! j) = Inr n) \<longrightarrow>
      fst (standardize_date_columns to_datetime h r year_col month_col) = Inl e
      \<and> (months ! i = StrV s \<longrightarrow> e = ValueError (''Unknown Dutch month name: '' @ s))
      \<and> ((\<forall>t. months ! i \<noteq> StrV t) \<longrightarrow>
           e = ValueError (''Invalid month name: '' @ py_str (months ! i))))
   \<and> (\<forall>q<length h. snd (standardize_date_columns to_datetime h r year_col month_col) ! q = h ! q)"
proof (intro conjI impI allI)
  assume "year_col \<notin> set (column_names (h ! r))"
  then show "fst (standardize_date_columns to_datetime h r year_col month_col)
        = Inl (ValueError (''Year column '' @ quoted year_col @ '' not found in DataFrame''))"
    by (simp add: standardize_fst standardized_create_date_Inl create_date_missing_year)
next
  assume "year_col \<in> set (column_names (h ! r)) \<and> month_col \<notin> set (column_names (h ! r))"
  then show "fst (standardize_date_columns to_datetime h r year_col month_col)
        = Inl (ValueError (''Month column '' @ quoted month_col @ '' not found in DataFrame''))"
    by (simp add: standardize_fst standardized_create_date_Inl create_date_missing_month)
next
  assume a: "year_col \<in> set (column_names (h ! r)) \<and> getitem (h ! r) month_col = Inr months
        \<and> i < length months \<and> dutch_month_to_number (months ! i) = Inl e
        \<and> (\<forall>j<i. \<exists>n. dutch_month_to_number (months ! j) = Inr n)"
  then have "create_date_from_columns to_datetime (h ! r) year_col month_col 1 = Inl e"
    by (intro create_date_first_failure [where months = months and i = i]) simp_all
  then show "fst (standardize_date_columns to_datetime h r year_col month_col) = Inl e"
    by (simp add: standardize_fst standardized_create_date_Inl)
  {
    assume "months ! i = StrV s"
    with a show "e = ValueError (''Unknown Dutch month name: '' @ s)"
      by (auto simp: dutch_month_to_number_Str split: option.splits)
  }
  {
    assume "\<forall>t. months ! i \<noteq> StrV t"
    with a show "e = ValueError (''Invalid month name: '' @ py_str (months ! i))"
      by (simp add: dutch_month_to_number_not_Str)
  }
next
  fix q assume "q < length h"
  then show "snd (standardize_date_columns to_datetime h r year_col month_col) ! q = h ! q"
    by (rule standardize_unchanged)
qed

theorem synthesizer_failure_witness:
  "''year'' \<notin> set (column_names ([smarch_second] ! 0))
   \<and> fst (standardize_date_columns sample_to_datetime [smarch_second] 0 ''year'' ''maand'')
       = Inl (ValueError (''Year column '' @ quoted ''year'' @ '' not found in DataFrame''))
   \<and> ''jaar'' \<in> set (column_names ([smarch_second] ! 0))
   \<and> ''month'' \<notin> set (column_names ([smarch_second] ! 0))
   \<and> fst (standardize_date_columns sample_to_datetime [smarch_second] 0 ''jaar'' ''month'')
       = Inl (ValueError (''Month column '' @ quoted ''month'' @ '' not found in DataFrame''))
   \<and> getitem ([smarch_second] ! 0) ''maand'' = Inr [StrV ''Januari'', StrV ''Smarch'']
   \<and> dutch_month_to_number ([StrV ''Januari'', StrV ''Smarch''] ! 1)
       = Inl (ValueError ''Unknown Dutch month name: Smarch'')
   \<and> dutch_month_to_number ([StrV ''Januari'', StrV ''Smarch''] ! 0) = Inr 1
   \<and> fst (standardize_date_columns sample_to_datetime [smarch_second] 0 ''jaar'' ''maand'')
       = Inl (ValueError ''Unknown Dutch month name: Smarch'')
   \<and> snd (standardize_date_columns sample_to_datetime [smarch_second] 0 ''jaar'' ''maand'') ! 0
       = smarch_second"
proof -
  let ?months = "[StrV ''Januari'', StrV ''Smarch'']"
  let ?e = "ValueError ''Unknown Dutch month name: Smarch''"
  have s: "strip (lower ''Januari'') = ''januari''" "strip (lower ''Smarch'') = ''smarch''"
    by (simp_all add: string_eval)
  have n: "''year'' \<notin> set (column_names ([smarch_second] ! 0))"
    "''jaar'' \<in> set (column_names ([smarch_second] ! 0))"
    "''month'' \<notin> set (column_names ([smarch_second] ! 0))"
    by (simp_all add: smarch_second_def column_names_def)
  have g: "getitem ([smarch_second] ! 0) ''maand'' = Inr ?months"
    by (simp add: smarch_second_def getitem_def)
  have f: "dutch_month_to_number (?months ! 1) = Inl ?e"
    by (simp add: dutch_month_to_number_Str s DUTCH_MONTHS_def)
  have b: "\<forall>j<1. \<exists>n. dutch_month_to_number (?months ! j) = Inr n"
    by (simp add: dutch_month_to_number_Str s DUTCH_MONTHS_def)
  have i: "(1::nat) < length ?months" by simp
  note t1 = synthesizer_failure [of "''year''" "[smarch_second]" 0 sample_to_datetime "''maand''"
      ?months 1 ?e "''Smarch''"]
  note t2 = synthesizer_failure [of "''jaar''" "[smarch_second]" 0 sample_to_datetime "''month''"
      ?months 1 ?e "''Smarch''"]
  note t3 = synthesizer_failure [of "''jaar''" "[smarch_second]" 0 sample_to_datetime "''maand''"
      ?months 1 ?e "''Smarch''"]
  from t1 n(1) have c1: "fst (standardize_date_columns sample_to_datetime [smarch_second] 0 ''year'' ''maand'')
       = Inl (ValueError (''Year column '' @ quoted ''year'' @ '' not found in DataFrame''))"
    by blast
  from t2 n(2,3) have c2: "fst (standardize_date_columns sample_to_datetime [smarch_second] 0 ''jaar'' ''month'')
       = Inl (ValueError (''Month column '' @ quoted ''month'' @ '' not found in DataFrame''))"
    by blast
  from t3 n(2) g i f b
  have c3: "fst (standardize_date_columns sample_to_datetime [smarch_second] 0 ''jaar'' ''maand'') = Inl ?e"
    by blast
  from t3 have "\<forall>q<length [smarch_second].
      snd (standardize_date_columns sample_to_datetime [smarch_second] 0 ''jaar'' ''maand'') ! q
        = [smarch_second] ! q"
    by blast
  then have c4: "snd (standardize_date_columns sample_to_datetime [smarch_second] 0 ''jaar'' ''maand'') ! 0
       = smarch_second"
    by simp
  have b0: "dutch_month_to_number (?months ! 0) = Inr 1"
    by (simp add: dutch_month_to_number_Str s DUTCH_MONTHS_def)
  from n g f b0 c1 c2 c3 c4 show ?thesis by blast
qed

text \<open>
  The error does not name the row: with \<open>Smarch\<close> in the first row or in the second
  row, the call raises the same error.
\<close>

theorem synthesizer_row_identity_counterexample:
  "fst (standardize_date_columns sample_to_datetime [smarch_first] 0 ''jaar'' ''maand'')
     = Inl (ValueError ''Unknown Dutch month name: Smarch'')
   \<and> fst (standardize_date_columns sample_to_datetime [smarch_second] 0 ''jaar'' ''maand'')
     = Inl (ValueError ''Unknown Dutch month name: Smarch'')"
  by code_simp

section \<open>The synthesizer leaves its input alone\<close>







lemma apply_series_map:
  "(\<And>x. x \<in> set xs \<Longrightarrow> f x = Inr (g x)) \<Longrightarrow> apply_series f xs = Inr (map g xs)"
  by (induction xs) simp_all












section \<open>The period filter\<close>

lemma select_mask_Nil [simp]: "select_mask [] xs = []" "select_mask ks [] = []"
  by (simp_all add: select_mask_def)

lemma select_mask_Cons [simp]:
  "select_mask (k # ks) (x # xs) = (if k then x # select_mask ks xs else select_mask ks xs)"
  by (simp add: select_mask_def)

lemma select_mask_twice:
  "length k1 = length k2 \<Longrightarrow> length k2 = length xs \<Longrightarrow>
   select_mask (select_mask k1 k2) (select_mask k1 xs) = select_mask (map2 (\<and>) k1 k2) xs"
  by (induction k1 k2 xs rule: list_induct3) simp_all

lemma select_mask_map:
  "length k = length xs \<Longrightarrow> select_mask k (map f xs) = map f (select_mask k xs)"
  by (induction k xs rule: list_induct2) simp_all

lemma select_mask_all: "select_mask (map (\<lambda>_. True) xs) xs = xs"
  by (induction xs) simp_all

lemma select_mask_all': "length k = length xs \<Longrightarrow> \<forall>b \<in> set k. b \<Longrightarrow> select_mask k xs = xs"
  by (induction k xs rule: list_induct2) auto

lemma wf_getitem_length:
  "wf_table df \<Longrightarrow> getitem df col = Inr vs \<Longrightarrow> length vs = length (df_index df)"
  by (auto simp: wf_table_def getitem_def split: option.splits dest!: map_of_SomeD)

lemma map_of_map_columns:
  "map_of (map (\<lambda>(c, vs). (c, f vs)) cols) col = map_option f (map_of cols col)"
  by (induction cols) auto

lemma getitem_boolean_index:
  "getitem df col = Inr vs \<Longrightarrow> getitem (boolean_index df k) col = Inr (select_mask k vs)"
  by (auto simp: getitem_def boolean_index_def map_of_map_columns split: option.splits)

lemma boolean_index_twice:
  assumes "wf_table df" and "length k1 = length (df_index df)" and "length k2 = length k1"
  shows "boolean_index (boolean_index df k1) (select_mask k1 k2)
     = boolean_index df (map2 (\<and>) k1 k2)"
proof -
  have a: "select_mask (select_mask k1 k2) (select_mask k1 (df_index df))
      = select_mask (map2 (\<and>) k1 k2) (df_index df)"
    using assms(2,3) by (intro select_mask_twice) simp_all
  have b: "select_mask (select_mask k1 k2) (select_mask k1 vs) = select_mask (map2 (\<and>) k1 k2) vs"
    if "(c, vs) \<in> set (df_columns df)" for c vs
  proof -
    from that assms(1) have "length vs = length (df_index df)"
      by (auto simp: wf_table_def)
    with assms(2,3) show ?thesis by (intro select_mask_twice) simp_all
  qed
  have "map ((\<lambda>(c, vs). (c, select_mask (select_mask k1 k2) vs)) \<circ> (\<lambda>(c, vs). (c, select_mask k1 vs)))
      (df_columns df) = map (\<lambda>(c, vs). (c, select_mask (map2 (\<and>) k1 k2) vs)) (df_columns df)"
    by (rule map_cong) (auto simp: b)
  with a show ?thesis
    by (simp add: boolean_index_def)
qed

lemma boolean_index_all:
  assumes "wf_table df" and "length k = length (df_index df)" and "\<forall>b \<in> set k. b"
  shows "boolean_index df k = df"
proof -
  have "map (\<lambda>(c, vs). (c, select_mask k vs)) (df_columns df) = df_columns df"
    using assms by (intro map_idI) (auto simp: wf_table_def select_mask_all')
  then show ?thesis
    using assms by (simp add: boolean_index_def select_mask_all')
qed

lemma filter_rows_ok:
  "getitem (h ! r) col = Inr vs \<Longrightarrow> apply_series test vs = Inr k \<Longrightarrow>
   filter_rows h r col test = (Inr (length h), h @ [boolean_index (h ! r) k])"
  by (simp add: filter_rows_def alloc_def)

lemma set_select_mask: "set (select_mask k xs) \<subseteq> set xs"
  by (auto simp: select_mask_def dest: set_zip_rightD)

lemma filter_step:
  assumes wf: "wf_table df" and lk: "length k = length (df_index df)"
    and cur: "h ! cur = boolean_index df k" and col: "getitem df col = Inr vs"
    and test: "\<And>x ws. set ws \<subseteq> set vs \<Longrightarrow> apply_series (test x) ws = Inr (map (P (Some x)) ws)"
    and none: "\<And>v. P None v"
  shows "\<exists>cur' h'.
      (case opt of None \<Rightarrow> (Inr cur, h) | Some x \<Rightarrow> filter_rows h cur col (test x)) = (Inr cur', h')
    \<and> h' ! cur' = boolean_index df (map2 (\<and>) k (map (P opt) vs))
    \<and> (\<exists>ext. h' = h @ ext) \<and> (cur' = cur \<or> cur' = length h) \<and> (cur < length h \<longrightarrow> cur' < length h')"
proof -
  have lv: "length vs = length (df_index df)" using wf col by (rule wf_getitem_length)
  show ?thesis
  proof (cases opt)
    case None
    have "map2 (\<and>) k (map (P None) vs) = k"
      using lk lv none by (intro nth_equalityI) simp_all
    with None cur show ?thesis by simp
  next
    case (Some x)
    have g: "getitem (h ! cur) col = Inr (select_mask k vs)"
      using col by (simp add: cur getitem_boolean_index)
    have a: "apply_series (test x) (select_mask k vs) = Inr (map (P (Some x)) (select_mask k vs))"
      by (rule test) (rule set_select_mask)
    have m: "map (P (Some x)) (select_mask k vs) = select_mask k (map (P (Some x)) vs)"
      using lk lv by (simp add: select_mask_map)
    have f: "filter_rows h cur col (test x)
        = (Inr (length h), h @ [boolean_index (h ! cur) (select_mask k (map (P (Some x)) vs))])"
      using filter_rows_ok [OF g a] m by simp
    have t: "boolean_index (h ! cur) (select_mask k (map (P (Some x)) vs))
        = boolean_index df (map2 (\<and>) k (map (P (Some x)) vs))"
      unfolding cur using wf lk lv by (intro boolean_index_twice) simp_all
    from Some f t show ?thesis by simp
  qed
qed

lemma apply_series_cell_ge:
  assumes "\<forall>y \<in> set ws. y = NaN \<or> (\<exists>i. y = IntV i)"
  shows "apply_series (cell_ge s) ws = Inr (map (year_from (Some s)) ws)"
proof (rule apply_series_map)
  fix y assume "y \<in> set ws"
  with assms have "y = NaN \<or> (\<exists>i. y = IntV i)" by blast
  then show "cell_ge s y = Inr (year_from (Some s) y)"
    by (auto simp: cell_ge_def year_from_def)
qed

lemma apply_series_cell_le:
  assumes "\<forall>y \<in> set ws. y = NaN \<or> (\<exists>i. y = IntV i)"
  shows "apply_series (cell_le e) ws = Inr (map (year_upto (Some e)) ws)"
proof (rule apply_series_map)
  fix y assume "y \<in> set ws"
  with assms have "y = NaN \<or> (\<exists>i. y = IntV i)" by blast
  then show "cell_le e y = Inr (year_upto (Some e) y)"
    by (auto simp: cell_le_def year_upto_def)
qed

lemma apply_series_cell_isin:
  "apply_series (cell_isin ms) ws = Inr (map (month_among (Some ms)) ws)"
  by (rule apply_series_map) (simp add: cell_isin_def month_among_def)

text \<open>
  Claim C6. For a well formed table with a year column of integers and missing values
  and a month column, \<open>filter_by_period\<close> returns a new table and leaves every table
  of the store as it was. The new table holds exactly the rows, with their index
  labels and in their order, whose year is at least the start year, at most the end
  year, and whose raw month label is equal to one of the given labels; a bound that is
  not given tests nothing. The result may have no rows. On the five rows of the example,
  the start year 2024 with the labels \<open>April\<close> and \<open>Mei\<close> keeps the rows 3 and 4.
\<close>

theorem filter_by_period_rows:
  assumes "wf_table (h ! r)"
    and "getitem (h ! r) year_col = Inr years" and "getitem (h ! r) month_col = Inr months"
    and "\<forall>y \<in> set years. y = NaN \<or> (\<exists>i. y = IntV i)"
  shows "\<exists>r' h'.
      filter_by_period h r year_col month_col start_year end_year months_opt = (Inr r', h')
    \<and> length h \<le> r' \<and> (r < length h \<longrightarrow> r' \<noteq> r)
    \<and> (\<forall>q<length h. h' ! q = h ! q)
    \<and> h' ! r' = boolean_index (h ! r)
                   (map2 (row_in_period start_year end_year months_opt) years months)"
proof -
  let ?df = "h ! r"
  let ?h0 = "h @ [?df]"
  let ?k0 = "map (\<lambda>_. True) (df_index ?df)"
  have ly: "length years = length (df_index ?df)" and lm: "length months = length (df_index ?df)"
    using assms(1-3) by (auto dest: wf_getitem_length)
  have c0: "?h0 ! length h = boolean_index ?df ?k0"
    using assms(1) by (simp add: boolean_index_all)
  have ty: "apply_series (cell_ge x) ws = Inr (map (year_from (Some x)) ws)"
    and tz: "apply_series (cell_le x) ws = Inr (map (year_upto (Some x)) ws)"
    if "set ws \<subseteq> set years" for x ws
    using that assms(4) by (auto intro!: apply_series_cell_ge apply_series_cell_le)
  from filter_step [where P = year_from and test = cell_ge and opt = start_year,
      OF assms(1) _ c0 assms(2) ty]
  obtain cur1 h1 where
    s1: "(case start_year of None \<Rightarrow> (Inr (length h), ?h0)
          | Some x \<Rightarrow> filter_rows ?h0 (length h) year_col (cell_ge x)) = (Inr cur1, h1)"
    and t1: "h1 ! cur1 = boolean_index ?df (map2 (\<and>) ?k0 (map (year_from start_year) years))"
    and e1: "\<exists>ext. h1 = ?h0 @ ext" and b1: "cur1 = length h \<or> cur1 = length ?h0"
    and l1: "cur1 < length h1"
    by (auto simp: year_from_def)
  let ?k1 = "map2 (\<and>) ?k0 (map (year_from start_year) years)"
  have lk1: "length ?k1 = length (df_index ?df)" using ly by simp
  from filter_step [where P = year_upto and test = cell_le and opt = end_year,
      OF assms(1) lk1 t1 assms(2) tz]
  obtain cur2 h2 where
    s2: "(case end_year of None \<Rightarrow> (Inr cur1, h1)
          | Some x \<Rightarrow> filter_rows h1 cur1 year_col (cell_le x)) = (Inr cur2, h2)"
    and t2: "h2 ! cur2 = boolean_index ?df (map2 (\<and>) ?k1 (map (year_upto end_year) years))"
    and e2: "\<exists>ext. h2 = h1 @ ext" and b2: "cur2 = cur1 \<or> cur2 = length h1"
    and l2: "cur1 < length h1 \<longrightarrow> cur2 < length h2"
    by (auto simp: year_upto_def)
  let ?k2 = "map2 (\<and>) ?k1 (map (year_upto end_year) years)"
  have lk2: "length ?k2 = length (df_index ?df)" using ly by simp
  from filter_step [where P = month_among and test = cell_isin and opt = months_opt,
      OF assms(1) lk2 t2 assms(3) apply_series_cell_isin]
  obtain cur3 h3 where
    s3: "(case months_opt of None \<Rightarrow> (Inr cur2, h2)
          | Some x \<Rightarrow> filter_rows h2 cur2 month_col (cell_isin x)) = (Inr cur3, h3)"
    and t3: "h3 ! cur3 = boolean_index ?df (map2 (\<and>) ?k2 (map (month_among months_opt) months))"
    and e3: "\<exists>ext. h3 = h2 @ ext" and b3: "cur3 = cur2 \<or> cur3 = length h2"
    by (auto simp: month_among_def)
  have res: "filter_by_period h r year_col month_col start_year end_year months_opt = (Inr cur3, h3)"
    by (simp add: filter_by_period_def copy_df_def alloc_def s1 s2 s3)
  have k: "map2 (\<and>) ?k2 (map (month_among months_opt) months)
      = map2 (row_in_period start_year end_year months_opt) years months"
    using ly lm by (intro nth_equalityI) (auto simp: row_in_period_def)
  from e1 e2 e3 obtain ext where ext: "h3 = h @ ext" by auto
  from e1 e2 obtain x1 x2 where x: "h1 = ?h0 @ x1" "h2 = h1 @ x2" by auto
  have ge: "length h \<le> cur3" using b1 b2 b3 x by auto
  have "\<forall>q<length h. h3 ! q = h ! q" by (simp add: ext nth_append)
  with res t3 k ge show ?thesis by auto
qed

lemma sample_table_facts:
  "wf_table ([sample_table] ! 0)"
  "getitem ([sample_table] ! 0) ''jaar'' = Inr [IntV 2023, IntV 2023, IntV 2023, IntV 2024, IntV 2024]"
  "getitem ([sample_table] ! 0) ''maand''
     = Inr [StrV ''Januari'', StrV ''Februari'', StrV ''Maart'', StrV ''April'', StrV ''Mei'']"
  "\<forall>y \<in> set [IntV 2023, IntV 2023, IntV 2023, IntV 2024, IntV 2024]. y = NaN \<or> (\<exists>i. y = IntV i)"
  by (simp_all add: wf_table_def sample_table_def getitem_def)

theorem filter_by_period_rows_witness:
  "(\<exists>r' h'. filter_by_period [sample_table] 0 ''jaar'' ''maand'' (Some 2024) None
                (Some [''April'', ''Mei'']) = (Inr r', h')
       \<and> 1 \<le> r' \<and> h' ! 0 = sample_table
       \<and> h' ! r' = \<lparr>df_index = [3, 4],
                      df_columns = [(''jaar'', [IntV 2024, IntV 2024]),
                                    (''maand'', [StrV ''April'', StrV ''Mei'']),
                                    (''waarde'', [IntV 130, IntV 140])]\<rparr>)
   \<and> (\<exists>r' h'. filter_by_period [sample_table] 0 ''jaar'' ''maand'' (Some 2023) (Some 2023)
                (Some [''maart'']) = (Inr r', h')
       \<and> h' ! 0 = sample_table
       \<and> h' ! r' = \<lparr>df_index = [],
                      df_columns = [(''jaar'', []), (''maand'', []), (''waarde'', [])]\<rparr>)"
proof -
  let ?years = "[IntV 2023, IntV 2023, IntV 2023, IntV 2024, IntV 2024]"
  let ?months = "[StrV ''Januari'', StrV ''Februari'', StrV ''Maart'', StrV ''April'', StrV ''Mei'']"
  have m1: "map2 (row_in_period (Some 2024) None (Some [''April'', ''Mei''])) ?years ?months
      = [False, False, False, True, True]"
    by (simp add: row_in_period_def year_from_def year_upto_def month_among_def)
  have m2: "map2 (row_in_period (Some 2023) (Some 2023) (Some [''maart''])) ?years ?months
      = [False, False, False, False, False]"
    by (simp add: row_in_period_def year_from_def year_upto_def month_among_def)
  have b1: "boolean_index sample_table [False, False, False, True, True]
      = \<lparr>df_index = [3, 4],
         df_columns = [(''jaar'', [IntV 2024, IntV 2024]),
                       (''maand'', [StrV ''April'', StrV ''Mei'']),
                       (''waarde'', [IntV 130, IntV 140])]\<rparr>"
    by (simp add: boolean_index_def sample_table_def)
  have b2: "boolean_index sample_table [False, False, False, False, False]
      = \<lparr>df_index = [], df_columns = [(''jaar'', []), (''maand'', []), (''waarde'', [])]\<rparr>"
    by (simp add: boolean_index_def sample_table_def)
  from filter_by_period_rows [OF sample_table_facts, of "Some 2024" None "Some [''April'', ''Mei'']"]
  obtain r1 h1 where
    a1: "filter_by_period [sample_table] 0 ''jaar'' ''maand'' (Some 2024) None
           (Some [''April'', ''Mei'']) = (Inr r1, h1)"
    and a2: "length [sample_table] \<le> r1" and a3: "\<forall>q<length [sample_table]. h1 ! q = [sample_table] ! q"
    and a4: "h1 ! r1 = boolean_index ([sample_table] ! 0)
        (map2 (row_in_period (Some 2024) None (Some [''April'', ''Mei''])) ?years ?months)"
    by blast
  from filter_by_period_rows [OF sample_table_facts, of "Some 2023" "Some 2023" "Some [''maart'']"]
  obtain r2 h2 where
    c1: "filter_by_period [sample_table] 0 ''jaar'' ''maand'' (Some 2023) (Some 2023)
           (Some [''maart'']) = (Inr r2, h2)"
    and c3: "\<forall>q<length [sample_table]. h2 ! q = [sample_table] ! q"
    and c4: "h2 ! r2 = boolean_index ([sample_table] ! 0)
        (map2 (row_in_period (Some 2023) (Some 2023) (Some [''maart''])) ?years ?months)"
    by blast
  from a2 have "1 \<le> r1" by simp
  moreover from a3 have "h1 ! 0 = sample_table" by simp
  moreover from a4 have "h1 ! r1 = \<lparr>df_index = [3, 4],
         df_columns = [(''jaar'', [IntV 2024, IntV 2024]),
                       (''maand'', [StrV ''April'', StrV ''Mei'']),
                       (''waarde'', [IntV 130, IntV 140])]\<rparr>"
    by (simp only: m1 b1 nth_Cons_0)
  moreover from c3 have "h2 ! 0 = sample_table" by simp
  moreover from c4 have "h2 ! r2
      = \<lparr>df_index = [], df_columns = [(''jaar'', []), (''maand'', []), (''waarde'', [])]\<rparr>"
    by (simp only: m2 b2 nth_Cons_0)
  ultimately show ?thesis using a1 c1 by blast
qed

end
